theory Spec2Isabelle
  imports Complex_Main "HOL-Library.AList" "HOL-Library.Product_Lexorder" "HOL-Library.Sublist"
begin

section \<open>Circuit breaker (src/utils/error\_monitor.py)\<close>

text \<open>
  Wall-clock readings (\<open>time.time()\<close>) are reals; the clock is not part of the state, each
  operation receives the reading it takes as its first argument \<open>current_time\<close>.
  The thresholds and timeouts are Python integers.
\<close>

datatype CircuitState = CLOSED | OPEN | HALF_OPEN

record CircuitBreaker =
  failure_threshold :: int
  recovery_timeout :: int
  reset_timeout :: int
  state :: CircuitState
  failure_count :: int
  last_failure_time :: real
  last_success_time :: real

text \<open>\<open>CircuitBreaker.__init__\<close>: a fresh breaker is closed with no failures.\<close>

definition new_breaker :: "real \<Rightarrow> int \<Rightarrow> int \<Rightarrow> int \<Rightarrow> CircuitBreaker" where
  "new_breaker current_time threshold recovery reset =
     \<lparr>failure_threshold = threshold, recovery_timeout = recovery, reset_timeout = reset,
      state = CLOSED, failure_count = 0, last_failure_time = 0,
      last_success_time = current_time\<rparr>"

text \<open>
  \<open>CircuitBreaker.record_failure\<close>. The statements are kept in the order of the source:
  \<open>last_failure_time\<close> is overwritten with the current reading first, and the test for the
  reset of the count reads the field after that assignment.
\<close>

definition record_failure :: "real \<Rightarrow> CircuitBreaker \<Rightarrow> CircuitBreaker" where
  "record_failure current_time b =
     (let b1 = b\<lparr>last_failure_time := current_time\<rparr>;
          b2 = (if current_time - last_failure_time b1 > real_of_int (reset_timeout b1)
                then b1\<lparr>failure_count := 0\<rparr> else b1);
          b3 = b2\<lparr>failure_count := failure_count b2 + 1\<rparr>
      in if failure_count b3 \<ge> failure_threshold b3 then b3\<lparr>state := OPEN\<rparr> else b3)"

text \<open>\<open>CircuitBreaker.record_success\<close>.\<close>

definition record_success :: "real \<Rightarrow> CircuitBreaker \<Rightarrow> CircuitBreaker" where
  "record_success current_time b =
     (let b1 = b\<lparr>last_success_time := current_time\<rparr>
      in if state b1 = HALF_OPEN then b1\<lparr>state := CLOSED, failure_count := 0\<rparr> else b1)"

text \<open>\<open>CircuitBreaker.allow_request\<close>: the answer and the breaker after the call.\<close>

definition allow_request :: "real \<Rightarrow> CircuitBreaker \<Rightarrow> bool \<times> CircuitBreaker" where
  "allow_request current_time b =
     (case state b of
        CLOSED \<Rightarrow> (True, b)
      | OPEN \<Rightarrow>
          (if current_time - last_failure_time b > real_of_int (recovery_timeout b)
           then (True, b\<lparr>state := HALF_OPEN\<rparr>)
           else (False, b))
      | HALF_OPEN \<Rightarrow> (True, b))"

text \<open>A run of \<open>record_failure\<close> calls, one per clock reading, oldest first.\<close>

fun record_failures :: "real list \<Rightarrow> CircuitBreaker \<Rightarrow> CircuitBreaker" where
  "record_failures [] b = b"
| "record_failures (t # ts) b = record_failures ts (record_failure t b)"

section \<open>Error monitor (src/utils/error\_monitor.py)\<close>

text \<open>
  A Python exception is its class name and what \<open>str()\<close> does on it: \<open>Exn\<close> returns its
  message; on a \<open>StrRaisesSelf\<close> the method \<open>__str__\<close> raises the exception itself; on a
  \<open>StrRaises\<close> it raises another exception, of the given class and message, on which
  \<open>str()\<close> returns. Only instances of \<open>Exception\<close> are modelled: the \<open>except Exception\<close>
  handlers of the source catch every one of them.
\<close>

datatype exn =
    Exn (exc_type: string) (exc_message: string)
  | StrRaisesSelf (exc_type: string)
  | StrRaises (exc_type: string) (raised_type: string) (raised_message: string)

text \<open>\<open>str(e)\<close>, also what the f-string \<open>{e}\<close> evaluates: the text, or the exception raised.\<close>

fun py_str :: "exn \<Rightarrow> exn + string" where
  "py_str (Exn t msg) = Inr msg"
| "py_str (StrRaisesSelf t) = Inl (StrRaisesSelf t)"
| "py_str (StrRaises t t' msg) = Inl (Exn t' msg)"

text \<open>
  An error that \<open>track_error\<close> can log: \<open>str()\<close> returns on it, or raises an exception on which
  \<open>str()\<close> returns.
\<close>

definition loggable :: "exn \<Rightarrow> bool" where
  "loggable e =
     (case py_str e of
        Inr msg \<Rightarrow> True
      | Inl x \<Rightarrow> (case py_str x of Inr msg \<Rightarrow> True | Inl y \<Rightarrow> False))"

datatype ErrorSeverity = LOW | MEDIUM | HIGH | CRITICAL

record last_error =
  le_type :: string
  le_message :: string
  le_context :: string
  le_severity :: ErrorSeverity
  le_timestamp :: real
  le_count :: int

text \<open>
  The monitor: its three dictionaries and the files it has written, the per-occurrence
  detail files as pairs (error key, occurrence number) and the summary file as the counts it
  last stored. Calls of the logger are left out: they change none of this.
\<close>

record ErrorMonitor =
  error_counts :: "string \<rightharpoonup> int"
  last_errors :: "string \<rightharpoonup> last_error"
  circuit_breakers :: "string \<rightharpoonup> CircuitBreaker"
  detail_files :: "(string \<times> int) list"
  summary_file :: "(string \<rightharpoonup> int) option"

text \<open>
  The places of \<open>track_error\<close> where recording can fail. A fault environment says at which
  of them an exception is raised; a step that raises has no effect of its own.
\<close>

datatype fault_point = AtCount | AtLastError | AtBreaker | AtDetailFile | AtSummaryFile

definition fault_exn :: "fault_point \<Rightarrow> exn" where
  "fault_exn p =
     (case p of
        AtCount \<Rightarrow> Exn ''TypeError'' ''count''
      | AtLastError \<Rightarrow> Exn ''AttributeError'' ''severity''
      | AtBreaker \<Rightarrow> Exn ''RuntimeError'' ''breaker''
      | AtDetailFile \<Rightarrow> Exn ''OSError'' ''detail file''
      | AtSummaryFile \<Rightarrow> Exn ''OSError'' ''summary file'')"

text \<open>\<open>_save_error_details\<close>: its own handler swallows a failed write.\<close>

definition save_error_details :: "(fault_point \<Rightarrow> bool) \<Rightarrow> string \<Rightarrow> ErrorMonitor \<Rightarrow> ErrorMonitor" where
  "save_error_details faults error_key m =
     (case error_counts m error_key of
        None \<Rightarrow> m
      | Some error_count \<Rightarrow>
          if faults AtDetailFile then m
          else m\<lparr>detail_files := detail_files m @ [(error_key, error_count)]\<rparr>)"

text \<open>\<open>_save_error_summary\<close>: likewise.\<close>

definition save_error_summary :: "(fault_point \<Rightarrow> bool) \<Rightarrow> ErrorMonitor \<Rightarrow> ErrorMonitor" where
  "save_error_summary faults m =
     (if faults AtSummaryFile then m else m\<lparr>summary_file := Some (error_counts m)\<rparr>)"

text \<open>
  The body of the \<open>try\<close> block of \<open>track_error\<close>: the exception that leaves it, if any, and
  the monitor as it is at that moment. Its second statement is \<open>str(error)\<close>, which can raise
  before anything is recorded.
\<close>

definition track_error_try ::
  "(fault_point \<Rightarrow> bool) \<Rightarrow> real \<Rightarrow> exn \<Rightarrow> string \<Rightarrow> ErrorSeverity \<Rightarrow> ErrorMonitor
     \<Rightarrow> exn option \<times> ErrorMonitor" where
  "track_error_try faults now error context severity m =
     (let error_type = exc_type error
      in case py_str error of
           Inl x \<Rightarrow> (Some x, m)
         | Inr error_message \<Rightarrow>
      (let error_key = context @ '':'' @ error_type;
          m0 = (if error_counts m error_key = None
                then m\<lparr>error_counts := (error_counts m)(error_key \<mapsto> 0)\<rparr> else m)
      in if faults AtCount then (Some (fault_exn AtCount), m0)
         else
           let n = (case error_counts m0 error_key of None \<Rightarrow> 0 | Some c \<Rightarrow> c) + 1;
               m1 = m0\<lparr>error_counts := (error_counts m0)(error_key \<mapsto> n)\<rparr>
           in if faults AtLastError then (Some (fault_exn AtLastError), m1)
              else
                let m2 = m1\<lparr>last_errors := (last_errors m1)(error_key \<mapsto>
                           \<lparr>le_type = error_type, le_message = error_message,
                            le_context = context, le_severity = severity,
                            le_timestamp = now, le_count = n\<rparr>)\<rparr>
                in if faults AtBreaker \<and> circuit_breakers m2 context \<noteq> None
                   then (Some (fault_exn AtBreaker), m2)
                   else
                     let m3 = (case circuit_breakers m2 context of
                                 None \<Rightarrow> m2
                               | Some b \<Rightarrow> m2\<lparr>circuit_breakers :=
                                   (circuit_breakers m2)(context \<mapsto> record_failure now b)\<rparr>);
                         m4 = save_error_details faults error_key m3;
                         m5 = save_error_summary faults m4
                     in (None, m5)))"

text \<open>
  \<open>track_error\<close>: the \<open>try\<close> block under its \<open>except Exception as e\<close> handler. The handler
  builds its log line with the f-string \<open>{e}\<close> under no guard of its own, so an exception of
  \<open>str(e)\<close> leaves \<open>track_error\<close>. The first component is the exception that reaches the
  caller.
\<close>

definition track_error ::
  "(fault_point \<Rightarrow> bool) \<Rightarrow> real \<Rightarrow> exn \<Rightarrow> string \<Rightarrow> ErrorSeverity \<Rightarrow> ErrorMonitor
     \<Rightarrow> exn option \<times> ErrorMonitor" where
  "track_error faults now error context severity m =
     (case track_error_try faults now error context severity m of
        (None, m') \<Rightarrow> (None, m')
      | (Some e, m') \<Rightarrow>
          (case py_str e of
             Inr msg \<Rightarrow> (None, m')
           | Inl x \<Rightarrow> (Some x, m')))"

text \<open>\<open>register_circuit_breaker\<close>: keeps a breaker that is already registered.\<close>

definition register_circuit_breaker ::
  "real \<Rightarrow> string \<Rightarrow> int \<Rightarrow> int \<Rightarrow> ErrorMonitor \<Rightarrow> CircuitBreaker \<times> ErrorMonitor" where
  "register_circuit_breaker now context threshold recovery m =
     (case circuit_breakers m context of
        Some b \<Rightarrow> (b, m)
      | None \<Rightarrow>
          (new_breaker now threshold recovery 300,
           m\<lparr>circuit_breakers := (circuit_breakers m)(context \<mapsto> new_breaker now threshold recovery 300)\<rparr>))"

text \<open>\<open>circuit_is_closed\<close>: no breaker means allowed; otherwise \<open>allow_request\<close>.\<close>

definition circuit_is_closed :: "real \<Rightarrow> string \<Rightarrow> ErrorMonitor \<Rightarrow> bool \<times> ErrorMonitor" where
  "circuit_is_closed now context m =
     (case circuit_breakers m context of
        None \<Rightarrow> (True, m)
      | Some b \<Rightarrow>
          (case allow_request now b of
             (ok, b') \<Rightarrow> (ok, m\<lparr>circuit_breakers := (circuit_breakers m)(context \<mapsto> b')\<rparr>)))"

text \<open>\<open>ErrorMonitor.record_success\<close>.\<close>

definition monitor_record_success :: "real \<Rightarrow> string \<Rightarrow> ErrorMonitor \<Rightarrow> ErrorMonitor" where
  "monitor_record_success now context m =
     (case circuit_breakers m context of
        None \<Rightarrow> m
      | Some b \<Rightarrow> m\<lparr>circuit_breakers := (circuit_breakers m)(context \<mapsto> record_success now b)\<rparr>)"

section \<open>Connection manager (src/db/connection\_manager.py)\<close>

text \<open>
  What a caller can be handed: the primary client, the client built from the backup
  credentials, or the local fallback engine.
\<close>

datatype client = PrimaryClient | SecondaryClient | LocalFallback

text \<open>Every attempt to reach a service or to open the local store is recorded as an event.\<close>

datatype io_event = Connect string client | Probe string client

record health =
  healthy :: bool
  last_check :: "real option"
  last_success :: "real option"
  health_failure_count :: int

text \<open>
  The outside world as one call sees it, per dependency (\<open>''supabase''\<close>, \<open>''pinecone''\<close>):
  the exception raised by building the primary client and by its liveness probe, the backup
  keys of the key manager (the empty string when a key is unset), the exception raised by
  building and by probing the client of the backup credentials, and by constructing the local
  fallback. \<open>None\<close> is success.
\<close>

record world =
  primary_connect :: "string \<Rightarrow> exn option"
  primary_probe :: "string \<Rightarrow> exn option"
  backup_keys :: "string \<Rightarrow> string"
  secondary_connect :: "string \<Rightarrow> exn option"
  secondary_probe :: "string \<Rightarrow> exn option"
  local_init :: "string \<Rightarrow> exn option"

record ConnectionManager =
  monitor :: ErrorMonitor
  connection_health :: "string \<Rightarrow> health"
  io_trace :: "io_event list"

definition emit :: "io_event \<Rightarrow> ConnectionManager \<Rightarrow> ConnectionManager" where
  "emit ev s = s\<lparr>io_trace := io_trace s @ [ev]\<rparr>"

text \<open>
  The \<open>try\<close> block of \<open>get_supabase_client\<close> and of \<open>get_pinecone_client\<close>, which differ in
  the names only: note the check, build the primary client, probe it, and on success update
  the health entry and tell the breaker.
\<close>

definition try_primary ::
  "world \<Rightarrow> real \<Rightarrow> string \<Rightarrow> string \<Rightarrow> ConnectionManager \<Rightarrow> exn option \<times> ConnectionManager" where
  "try_primary w now dep context s =
     (let s1 = emit (Connect dep PrimaryClient)
                 (s\<lparr>connection_health := (connection_health s)
                      (dep := (connection_health s dep)\<lparr>last_check := Some now\<rparr>)\<rparr>)
      in case primary_connect w dep of
           Some e \<Rightarrow> (Some e, s1)
         | None \<Rightarrow>
             let s2 = emit (Probe dep PrimaryClient) s1
             in case primary_probe w dep of
                  Some e \<Rightarrow> (Some e, s2)
                | None \<Rightarrow>
                    (None,
                     s2\<lparr>connection_health := (connection_health s2)
                          (dep := (connection_health s2 dep)
                             \<lparr>healthy := True, last_success := Some now,
                              health_failure_count := 0\<rparr>),
                        monitor := monitor_record_success now context (monitor s2)\<rparr>))"

text \<open>The last rung of both ladders: construct the local fallback engine.\<close>

definition local_fallback :: "world \<Rightarrow> string \<Rightarrow> ConnectionManager \<Rightarrow> (exn + client) \<times> ConnectionManager" where
  "local_fallback w dep s =
     (let s1 = emit (Connect dep LocalFallback) s
      in case local_init w dep of
           Some e \<Rightarrow> (Inl e, s1)
         | None \<Rightarrow> (Inr LocalFallback, s1))"

text \<open>
  \<open>_get_supabase_fallback\<close>: with both backup values set, build and probe the secondary
  client; any exception there is logged and the local engine is used instead.
\<close>

definition get_supabase_fallback :: "world \<Rightarrow> ConnectionManager \<Rightarrow> (exn + client) \<times> ConnectionManager" where
  "get_supabase_fallback w s =
     (let backup_url = backup_keys w ''SUPABASE_URL'';
          backup_key = backup_keys w ''SUPABASE_KEY''
      in if backup_url \<noteq> [] \<and> backup_key \<noteq> []
         then
           (let s1 = emit (Connect ''supabase'' SecondaryClient) s
            in case secondary_connect w ''supabase'' of
                 Some e \<Rightarrow> local_fallback w ''supabase'' s1
               | None \<Rightarrow>
                   let s2 = emit (Probe ''supabase'' SecondaryClient) s1
                   in case secondary_probe w ''supabase'' of
                        Some e \<Rightarrow> local_fallback w ''supabase'' s2
                      | None \<Rightarrow> (Inr SecondaryClient, s2))
         else local_fallback w ''supabase'' s)"

text \<open>\<open>_get_pinecone_fallback\<close>: one backup key; the probe is \<open>list_indexes\<close>.\<close>

definition get_pinecone_fallback :: "world \<Rightarrow> ConnectionManager \<Rightarrow> (exn + client) \<times> ConnectionManager" where
  "get_pinecone_fallback w s =
     (let backup_key = backup_keys w ''PINECONE_API_KEY''
      in if backup_key \<noteq> []
         then
           (let s1 = emit (Connect ''pinecone'' SecondaryClient) s
            in case secondary_connect w ''pinecone'' of
                 Some e \<Rightarrow> local_fallback w ''pinecone'' s1
               | None \<Rightarrow>
                   let s2 = emit (Probe ''pinecone'' SecondaryClient) s1
                   in case secondary_probe w ''pinecone'' of
                        Some e \<Rightarrow> local_fallback w ''pinecone'' s2
                      | None \<Rightarrow> (Inr SecondaryClient, s2))
         else local_fallback w ''pinecone'' s)"

text \<open>
  The \<open>except Exception as e\<close> handler of both getters: track the error with severity HIGH,
  mark the dependency unhealthy, then either descend the ladder or re-raise \<open>e\<close>. An
  exception leaving \<open>track_error\<close> would leave the handler too.
\<close>

definition on_primary_failure ::
  "(fault_point \<Rightarrow> bool) \<Rightarrow> real \<Rightarrow> string \<Rightarrow> string \<Rightarrow> exn \<Rightarrow> ConnectionManager
     \<Rightarrow> exn option \<times> ConnectionManager" where
  "on_primary_failure faults now dep context e s =
     (case track_error faults now e context HIGH (monitor s) of
        (Some e', mon) \<Rightarrow> (Some e', s\<lparr>monitor := mon\<rparr>)
      | (None, mon) \<Rightarrow>
          (None,
           s\<lparr>monitor := mon,
              connection_health := (connection_health s)
                (dep := (connection_health s dep)
                   \<lparr>healthy := False,
                    health_failure_count := health_failure_count (connection_health s dep) + 1\<rparr>)\<rparr>))"

text \<open>\<open>get_supabase_client\<close>. All clock readings of one call are the one reading \<open>now\<close>.\<close>

definition get_supabase_client ::
  "world \<Rightarrow> (fault_point \<Rightarrow> bool) \<Rightarrow> real \<Rightarrow> bool \<Rightarrow> ConnectionManager
     \<Rightarrow> (exn + client) \<times> ConnectionManager" where
  "get_supabase_client w faults now use_fallback s =
     (case circuit_is_closed now ''supabase_connection'' (monitor s) of
        (allowed, mon) \<Rightarrow>
          let s0 = s\<lparr>monitor := mon\<rparr>
          in if \<not> allowed
             then (if \<not> use_fallback
                   then (Inl (Exn ''RuntimeError'' ''Supabase circuit breaker is open''), s0)
                   else get_supabase_fallback w s0)
             else
               (case try_primary w now ''supabase'' ''supabase_connection'' s0 of
                  (None, s1) \<Rightarrow> (Inr PrimaryClient, s1)
                | (Some e, s1) \<Rightarrow>
                    (case on_primary_failure faults now ''supabase'' ''supabase_connection'' e s1 of
                       (Some e', s2) \<Rightarrow> (Inl e', s2)
                     | (None, s2) \<Rightarrow>
                         if use_fallback then get_supabase_fallback w s2 else (Inl e, s2))))"

text \<open>\<open>get_pinecone_client\<close>.\<close>

definition get_pinecone_client ::
  "world \<Rightarrow> (fault_point \<Rightarrow> bool) \<Rightarrow> real \<Rightarrow> bool \<Rightarrow> ConnectionManager
     \<Rightarrow> (exn + client) \<times> ConnectionManager" where
  "get_pinecone_client w faults now use_fallback s =
     (case circuit_is_closed now ''pinecone_connection'' (monitor s) of
        (allowed, mon) \<Rightarrow>
          let s0 = s\<lparr>monitor := mon\<rparr>
          in if \<not> allowed
             then (if \<not> use_fallback
                   then (Inl (Exn ''RuntimeError'' ''Pinecone circuit breaker is open''), s0)
                   else get_pinecone_fallback w s0)
             else
               (case try_primary w now ''pinecone'' ''pinecone_connection'' s0 of
                  (None, s1) \<Rightarrow> (Inr PrimaryClient, s1)
                | (Some e, s1) \<Rightarrow>
                    (case on_primary_failure faults now ''pinecone'' ''pinecone_connection'' e s1 of
                       (Some e', s2) \<Rightarrow> (Inl e', s2)
                     | (None, s2) \<Rightarrow>
                         if use_fallback then get_pinecone_fallback w s2 else (Inl e, s2))))"

text \<open>\<open>ErrorMonitor.__init__\<close> with no summary on disk, and \<open>ConnectionManager.__init__\<close>.\<close>

definition new_error_monitor :: ErrorMonitor where
  "new_error_monitor =
     \<lparr>error_counts = Map.empty, last_errors = Map.empty, circuit_breakers = Map.empty,
      detail_files = [], summary_file = None\<rparr>"

definition new_connection_manager :: "real \<Rightarrow> ConnectionManager" where
  "new_connection_manager now =
     \<lparr>monitor =
        snd (register_circuit_breaker now ''pinecone_connection'' 5 60
          (snd (register_circuit_breaker now ''supabase_connection'' 5 60 new_error_monitor))),
      connection_health =
        (\<lambda>dep. \<lparr>healthy = False, last_check = None, last_success = None,
                 health_failure_count = 0\<rparr>),
      io_trace = []\<rparr>"

section \<open>Tiered cache (src/utils/cache.py)\<close>

text \<open>
  A Python dictionary keeps its keys in insertion order, and the eviction sorts the keys of
  one, so both memory dictionaries are association lists: assigning to a key that is present
  replaces its value in place, assigning to a new key appends (this is \<open>AList.update\<close>).
  \<open>del d[key]\<close> raises \<open>KeyError\<close> when the key is absent.
\<close>

definition py_del :: "string \<Rightarrow> (string \<times> 'a) list \<Rightarrow> exn + (string \<times> 'a) list" where
  "py_del key d =
     (if map_of d key = None then Inl (Exn ''KeyError'' key) else Inr (AList.delete key d))"

text \<open>The pickled dictionary of one cache file.\<close>

record 'v disk_entry =
  de_value :: 'v
  de_created_at :: real
  de_expiry :: "real option"

text \<open>
  The cache: its two settings, the two memory dictionaries, and the cache directory as a map
  from keys to file contents (file names are the MD5 of the key; distinct keys are taken to
  have distinct files).
\<close>

record 'v Cache =
  use_disk_cache :: bool
  max_memory_items :: int
  memory_cache :: "(string \<times> 'v) list"
  expiry_times :: "(string \<times> real) list"
  disk :: "string \<rightharpoonup> 'v disk_entry"

definition new_cache :: "bool \<Rightarrow> int \<Rightarrow> 'v Cache" where
  "new_cache use_disk max_items =
     \<lparr>use_disk_cache = use_disk, max_memory_items = max_items, memory_cache = [],
      expiry_times = [], disk = Map.empty\<rparr>"

text \<open>
  The sort key of the eviction, \<open>self._expiry_times.get(k, float('inf'))\<close>: pairs are
  ordered lexicographically and \<open>False < True\<close>, so a missing expiry is above every real.
\<close>

definition expiry_sort_key :: "(string \<times> real) list \<Rightarrow> string \<Rightarrow> bool \<times> real" where
  "expiry_sort_key expiries k =
     (case map_of expiries k of Some e \<Rightarrow> (False, e) | None \<Rightarrow> (True, 0))"

text \<open>The loop of the eviction: both \<open>del\<close> statements for each key in turn.\<close>

fun evict_keys :: "string list \<Rightarrow> 'v Cache \<Rightarrow> exn + 'v Cache" where
  "evict_keys [] c = Inr c"
| "evict_keys (key # keys) c =
     (case py_del key (memory_cache c) of
        Inl e \<Rightarrow> Inl e
      | Inr m \<Rightarrow>
          (case py_del key (expiry_times c) of
             Inl e \<Rightarrow> Inl e
           | Inr x \<Rightarrow> evict_keys keys (c\<lparr>memory_cache := m, expiry_times := x\<rparr>)))"

text \<open>
  \<open>_check_memory_cache_size\<close>. The keys that are sorted are those of \<open>_expiry_times\<close>;
  \<open>sorted\<close> is stable and ascending, as \<open>sort_key\<close> is.
\<close>

definition check_memory_cache_size :: "'v Cache \<Rightarrow> exn + 'v Cache" where
  "check_memory_cache_size c =
     (if int (length (memory_cache c)) > max_memory_items c
      then
        (let items_to_remove = int (length (memory_cache c)) - max_memory_items c;
             sorted_keys = sort_key (expiry_sort_key (expiry_times c)) (map fst (expiry_times c))
         in evict_keys (take (nat items_to_remove) sorted_keys) c)
      else Inr c)"

text \<open>
  \<open>Cache.set\<close>, reading the clock as \<open>now\<close>. Both tests \<open>if expiry:\<close> take \<open>None\<close> and
  the float 0 for false: \<open>recorded\<close> is the expiry they let through. \<open>io_ok = False\<close> stands
  for an exception in the block that writes the cache file, raised before the file is
  touched. The eviction is outside that block, so its \<open>KeyError\<close> would reach the caller.
\<close>

definition cache_set ::
  "real \<Rightarrow> bool \<Rightarrow> string \<Rightarrow> 'v \<Rightarrow> int option \<Rightarrow> 'v Cache \<Rightarrow> exn + bool \<times> 'v Cache" where
  "cache_set now io_ok key val expire_in c =
     (let expiry = (case expire_in of None \<Rightarrow> None | Some d \<Rightarrow> Some (now + real_of_int d));
          recorded = (case expiry of None \<Rightarrow> None | Some e \<Rightarrow> if e = 0 then None else Some e);
          c1 = c\<lparr>memory_cache := AList.update key val (memory_cache c)\<rparr>;
          c2 = (case recorded of
                  None \<Rightarrow> c1
                | Some e \<Rightarrow> c1\<lparr>expiry_times := AList.update key e (expiry_times c1)\<rparr>)
      in case check_memory_cache_size c2 of
           Inl e \<Rightarrow> Inl e
         | Inr c3 \<Rightarrow>
             if use_disk_cache c3
             then (if io_ok
                   then Inr (True, c3\<lparr>disk := (disk c3)(key \<mapsto>
                          \<lparr>de_value = val, de_created_at = now, de_expiry = recorded\<rparr>)\<rparr>)
                   else Inr (False, c3))
             else Inr (True, c3))"

text \<open>
  \<open>Cache.get\<close>. First the memory tier: an entry whose recorded expiry is before \<open>now\<close> is
  deleted from both dictionaries, any other entry is returned.
\<close>

definition memory_lookup :: "real \<Rightarrow> string \<Rightarrow> 'v Cache \<Rightarrow> 'v option \<times> 'v Cache" where
  "memory_lookup now key c =
     (case map_of (memory_cache c) key of
        None \<Rightarrow> (None, c)
      | Some v \<Rightarrow>
          (case map_of (expiry_times c) key of
             None \<Rightarrow> (Some v, c)
           | Some e \<Rightarrow>
               if e < now
               then (None, c\<lparr>memory_cache := AList.delete key (memory_cache c),
                             expiry_times := AList.delete key (expiry_times c)\<rparr>)
               else (Some v, c)))"

text \<open>
  Then the disk tier, the whole of it under \<open>except Exception\<close>: a failed read
  (\<open>io_ok = False\<close>) and a \<open>KeyError\<close> of the eviction both end in \<open>return default\<close>.
\<close>

definition disk_lookup :: "real \<Rightarrow> bool \<Rightarrow> string \<Rightarrow> 'v \<Rightarrow> 'v Cache \<Rightarrow> 'v \<times> 'v Cache" where
  "disk_lookup now io_ok key dflt c =
     (if \<not> io_ok then (dflt, c)
      else
        (case disk c key of
           None \<Rightarrow> (dflt, c)
         | Some data \<Rightarrow>
             if (case de_expiry data of None \<Rightarrow> False | Some e \<Rightarrow> e < now)
             then (dflt, c\<lparr>disk := (disk c)(key := None)\<rparr>)
             else
               (let c1 = c\<lparr>memory_cache := AList.update key (de_value data) (memory_cache c)\<rparr>;
                    c2 = (case de_expiry data of
                            None \<Rightarrow> c1
                          | Some e \<Rightarrow> c1\<lparr>expiry_times := AList.update key e (expiry_times c1)\<rparr>)
                in case check_memory_cache_size c2 of
                     Inl e \<Rightarrow> (dflt, c2)
                   | Inr c3 \<Rightarrow> (de_value data, c3))))"

definition cache_get :: "real \<Rightarrow> bool \<Rightarrow> string \<Rightarrow> 'v \<Rightarrow> 'v Cache \<Rightarrow> 'v \<times> 'v Cache" where
  "cache_get now io_ok key dflt c =
     (case memory_lookup now key c of
        (Some v, c1) \<Rightarrow> (v, c1)
      | (None, c1) \<Rightarrow>
          if use_disk_cache c1 then disk_lookup now io_ok key dflt c1 else (dflt, c1))"

text \<open>A sequence of \<open>set\<close> calls (clock reading, key, value, ttl), stopping at an exception.\<close>

fun cache_sets :: "(real \<times> string \<times> 'v \<times> int option) list \<Rightarrow> 'v Cache \<Rightarrow> exn + 'v Cache" where
  "cache_sets [] c = Inr c"
| "cache_sets ((now, key, val, expire_in) # ops) c =
     (case cache_set now True key val expire_in c of
        Inl e \<Rightarrow> Inl e
      | Inr (ok, c') \<Rightarrow> cache_sets ops c')"

text \<open>
  The invariant of the two memory dictionaries: \<open>_expiry_times\<close> has each key once (it is a
  dictionary) and only keys of \<open>_memory_cache\<close>. Every operation keeps it, and under it the
  \<open>del\<close> statements of the eviction find their keys.
\<close>

definition wf_cache :: "'v Cache \<Rightarrow> bool" where
  "wf_cache c \<longleftrightarrow>
     distinct (map fst (expiry_times c)) \<and>
     set (map fst (expiry_times c)) \<subseteq> set (map fst (memory_cache c))"

text \<open>The cache with the entries of a set of keys gone from both memory dictionaries.\<close>

definition without_keys :: "string set \<Rightarrow> 'v Cache \<Rightarrow> 'v Cache" where
  "without_keys K c =
     c\<lparr>memory_cache := filter (\<lambda>p. fst p \<notin> K) (memory_cache c),
       expiry_times := filter (\<lambda>p. fst p \<notin> K) (expiry_times c)\<rparr>"

text \<open>
  The keys an eviction removes from a cache in a given state: none when the memory tier is
  within its bound, otherwise as many keys of \<open>_expiry_times\<close> as the tier is over, those
  of earliest expiry.
\<close>

definition keys_to_evict :: "'v Cache \<Rightarrow> string list" where
  "keys_to_evict c =
     (if int (length (memory_cache c)) > max_memory_items c
      then take (nat (int (length (memory_cache c)) - max_memory_items c))
             (sort_key (expiry_sort_key (expiry_times c)) (map fst (expiry_times c)))
      else [])"

section \<open>Local fallback vector index (src/db/fallbacks/pinecone\_fallback.py)\<close>

text \<open>
  Vector components and scores are reals. A row of the SQLite table \<open>vectors\<close> holds the id
  (the primary key), the values, the metadata dictionary and the namespace. The table is the
  list of its rows in rowid order, the order in which a \<open>SELECT\<close> without \<open>ORDER BY\<close> scans
  it; \<open>INSERT OR REPLACE\<close> deletes the row of the same id and appends the new one.
\<close>

record 'm vector_row =
  vr_id :: string
  vr_values :: "real list"
  vr_metadata :: "string \<rightharpoonup> 'm"
  vr_namespace :: string

record 'm LocalPineconeFallback =
  vectors_table :: "'m vector_row list"
  vector_cache :: "string \<rightharpoonup> (real list \<times> (string \<rightharpoonup> 'm) \<times> string)"

definition new_pinecone_fallback :: "'m LocalPineconeFallback" where
  "new_pinecone_fallback = \<lparr>vectors_table = [], vector_cache = Map.empty\<rparr>"

text \<open>
  \<open>_save_vector\<close>; \<open>io_ok = False\<close> stands for an exception of the database call, which the
  method turns into the result \<open>False\<close>.
\<close>

definition save_vector ::
  "bool \<Rightarrow> string \<Rightarrow> real list \<Rightarrow> (string \<rightharpoonup> 'm) \<Rightarrow> string \<Rightarrow> 'm LocalPineconeFallback
     \<Rightarrow> bool \<times> 'm LocalPineconeFallback" where
  "save_vector io_ok ident vec metadata namespace cl =
     (if \<not> io_ok then (False, cl)
      else
        (True,
         cl\<lparr>vectors_table :=
              filter (\<lambda>r. vr_id r \<noteq> ident) (vectors_table cl) @
              [\<lparr>vr_id = ident, vr_values = vec, vr_metadata = metadata,
                vr_namespace = namespace\<rparr>],
            vector_cache := (vector_cache cl)(ident \<mapsto> (vec, metadata, namespace))\<rparr>))"

text \<open>
  \<open>_get_all_vectors\<close>: the namespace restricts the rows only when it is a non-empty string.
  The result is the dictionary from ids to (values, metadata), filled row by row; every row
  read is also put into \<open>vector_cache\<close> under the namespace of the call.
\<close>

definition get_all_vectors ::
  "bool \<Rightarrow> string \<Rightarrow> 'm LocalPineconeFallback
     \<Rightarrow> (string \<times> real list \<times> (string \<rightharpoonup> 'm)) list \<times> 'm LocalPineconeFallback" where
  "get_all_vectors io_ok namespace cl =
     (if \<not> io_ok then ([], cl)
      else
        (let results = (if namespace \<noteq> []
                        then filter (\<lambda>r. vr_namespace r = namespace) (vectors_table cl)
                        else vectors_table cl)
         in (fold (\<lambda>r d. AList.update (vr_id r) (vr_values r, vr_metadata r) d) results [],
             cl\<lparr>vector_cache :=
                  fold (\<lambda>r vc. vc(vr_id r \<mapsto> (vr_values r, vr_metadata r, namespace)))
                    results (vector_cache cl)\<rparr>)))"

text \<open>\<open>numpy.linalg.norm\<close> and \<open>numpy.dot\<close> on one-dimensional arrays.\<close>

definition np_norm :: "real list \<Rightarrow> real" where
  "np_norm a = sqrt (sum_list (map (\<lambda>x. x * x) a))"

definition np_dot :: "real list \<Rightarrow> real list \<Rightarrow> real" where
  "np_dot a b = sum_list (map (\<lambda>(x, y). x * y) (zip a b))"

text \<open>
  \<open>_cosine_similarity\<close>: 0 when either norm is 0; \<open>numpy.dot\<close> raises on arrays of
  different lengths and the handler returns 0.
\<close>

definition cosine_similarity :: "real list \<Rightarrow> real list \<Rightarrow> real" where
  "cosine_similarity a b =
     (let a_norm = np_norm a; b_norm = np_norm b
      in if a_norm = 0 \<or> b_norm = 0 then 0
         else if length a \<noteq> length b then 0
         else np_dot a b / (a_norm * b_norm))"

text \<open>
  The difference of two arrays broadcasts an array of length one; any other pair of
  different lengths raises.
\<close>

definition np_sub :: "real list \<Rightarrow> real list \<Rightarrow> real list option" where
  "np_sub a b =
     (if length a = length b then Some (map (\<lambda>(x, y). x - y) (zip a b))
      else if length a = 1 then Some (map (\<lambda>y. hd a - y) b)
      else if length b = 1 then Some (map (\<lambda>x. x - hd b) a)
      else None)"

definition euclidean_similarity :: "real list \<Rightarrow> real list \<Rightarrow> real" where
  "euclidean_similarity a b =
     (case np_sub a b of
        None \<Rightarrow> 0
      | Some diff \<Rightarrow> 1 / (1 + np_norm diff))"

definition calculate_similarity :: "real list \<Rightarrow> real list \<Rightarrow> string \<Rightarrow> real" where
  "calculate_similarity a b metric =
     (if metric = ''cosine'' then cosine_similarity a b
      else if metric = ''euclidean'' then euclidean_similarity a b
      else cosine_similarity a b)"

text \<open>\<open>_match_filter\<close>: every item of the filter is an item of the metadata.\<close>

definition match_filter :: "(string \<rightharpoonup> 'm) \<Rightarrow> (string \<times> 'm) list \<Rightarrow> bool" where
  "match_filter metadata flt = list_all (\<lambda>(key, val). metadata key = Some val) flt"

text \<open>The slice \<open>xs[:n]\<close>: a negative \<open>n\<close> counts from the end.\<close>

definition py_prefix :: "int \<Rightarrow> 'a list \<Rightarrow> 'a list" where
  "py_prefix n xs = (if 0 \<le> n then take (nat n) xs else take (nat (int (length xs) + n)) xs)"

record 'm match =
  m_id :: string
  m_score :: real
  m_metadata :: "(string \<rightharpoonup> 'm) option"

text \<open>
  The scored candidates of \<open>query\<close>, in the order of the dictionary: a filter that is \<open>None\<close>
  or empty lets every vector through.
\<close>

definition similarities ::
  "string \<Rightarrow> real list \<Rightarrow> (string \<times> 'm) list option
     \<Rightarrow> (string \<times> real list \<times> (string \<rightharpoonup> 'm)) list \<Rightarrow> (string \<times> real \<times> (string \<rightharpoonup> 'm)) list" where
  "similarities metric vec flt all_vectors =
     map (\<lambda>(ident, v, metadata). (ident, calculate_similarity vec v metric, metadata))
       (filter (\<lambda>(ident, v, metadata).
            (case flt of
               None \<Rightarrow> True
             | Some f \<Rightarrow> \<not> (f \<noteq> [] \<and> \<not> match_filter metadata f)))
          all_vectors)"

text \<open>
  \<open>LocalPineconeIndex.query\<close> for an index with the given metric. The list method
  \<open>sort(key, reverse=True)\<close> is stable, and so is \<open>sort_key\<close> on the negated score.
\<close>

definition query ::
  "string \<Rightarrow> bool \<Rightarrow> real list \<Rightarrow> int \<Rightarrow> string \<Rightarrow> bool \<Rightarrow> (string \<times> 'm) list option
     \<Rightarrow> 'm LocalPineconeFallback \<Rightarrow> 'm match list \<times> 'm LocalPineconeFallback" where
  "query metric io_ok vec top_k namespace include_metadata flt cl =
     (case get_all_vectors io_ok namespace cl of
        (all_vectors, cl') \<Rightarrow>
          if all_vectors = [] then ([], cl')
          else
            (let sims = similarities metric vec flt all_vectors;
                 sorted_sims = sort_key (\<lambda>(ident, score, metadata). - score) sims
             in (map (\<lambda>(ident, score, metadata).
                        \<lparr>m_id = ident, m_score = score,
                         m_metadata = (if include_metadata then Some metadata else None)\<rparr>)
                   (py_prefix top_k sorted_sims),
                 cl')))"

text \<open>
  \<open>LocalPineconeIndex.upsert\<close>: a vector object is (id, values, metadata); one with an empty
  id or no values is skipped. The result is the count of saved vectors.
\<close>

fun upsert ::
  "bool \<Rightarrow> (string \<times> real list \<times> (string \<rightharpoonup> 'm)) list \<Rightarrow> string \<Rightarrow> 'm LocalPineconeFallback
     \<Rightarrow> nat \<times> 'm LocalPineconeFallback" where
  "upsert io_ok [] namespace cl = (0, cl)"
| "upsert io_ok ((ident, vals, metadata) # vs) namespace cl =
     (if ident = [] \<or> vals = [] then upsert io_ok vs namespace cl
      else
        (case save_vector io_ok ident vals metadata namespace cl of
           (saved, cl1) \<Rightarrow>
             (case upsert io_ok vs namespace cl1 of
                (n, cl2) \<Rightarrow> ((if saved then Suc n else n), cl2))))"

text \<open>
  What the claim about \<open>query\<close> speaks of: the rows a query may score (the namespace is a
  restriction only when non-empty; every item of the filter must be an item of the metadata),
  and the match a row gives.
\<close>

definition eligible :: "string \<Rightarrow> (string \<times> 'm) list option \<Rightarrow> 'm vector_row \<Rightarrow> bool" where
  "eligible namespace flt r \<longleftrightarrow>
     (namespace = [] \<or> vr_namespace r = namespace) \<and>
     (case flt of None \<Rightarrow> True
      | Some f \<Rightarrow> list_all (\<lambda>(key, val). vr_metadata r key = Some val) f)"

definition scored :: "string \<Rightarrow> real list \<Rightarrow> bool \<Rightarrow> 'm vector_row \<Rightarrow> 'm match" where
  "scored metric vec include_metadata r =
     \<lparr>m_id = vr_id r, m_score = calculate_similarity vec (vr_values r) metric,
      m_metadata = (if include_metadata then Some (vr_metadata r) else None)\<rparr>"

section \<open>Local fallback structured store (src/db/fallbacks/supabase\_fallback.py)\<close>

text \<open>
  Values: SQL \<open>NULL\<close> (Python \<open>None\<close>), text, integers, floats, and a Python dictionary or
  list, given by its JSON text (what \<open>json.dumps\<close> makes of it). A record is a dictionary
  from column names to values, as an association list with distinct keys.
\<close>

datatype val = Null | Text string | Integer int | Float real | Obj string

type_synonym record_dict = "(string \<times> val) list"

text \<open>
  The three tables of \<open>_initialize_database\<close>: for each column its name, its declared type
  and its default. The first column, \<open>id\<close>, is the primary key of each.
\<close>

definition table_schema :: "string \<Rightarrow> (string \<times> string \<times> val) list option" where
  "table_schema t =
     (if t = ''videos'' then Some
        [(''id'', ''TEXT'', Null), (''filename'', ''TEXT'', Null), (''file_path'', ''TEXT'', Null),
         (''title'', ''TEXT'', Null), (''description'', ''TEXT'', Null), (''tags'', ''TEXT'', Null),
         (''duration'', ''REAL'', Null), (''size_bytes'', ''INTEGER'', Null),
         (''format'', ''TEXT'', Null), (''width'', ''INTEGER'', Null), (''height'', ''INTEGER'', Null),
         (''thumbnail_path'', ''TEXT'', Null), (''created_at'', ''TEXT'', Null),
         (''updated_at'', ''TEXT'', Null), (''user_id'', ''TEXT'', Null), (''metadata'', ''TEXT'', Null),
         (''status'', ''TEXT'', Text ''processed'')]
      else if t = ''processing_jobs'' then Some
        [(''id'', ''TEXT'', Null), (''video_id'', ''TEXT'', Null), (''job_type'', ''TEXT'', Null),
         (''status'', ''TEXT'', Null), (''progress'', ''INTEGER'', Integer 0),
         (''started_at'', ''TEXT'', Null), (''completed_at'', ''TEXT'', Null),
         (''params'', ''TEXT'', Null), (''error'', ''TEXT'', Null),
         (''webhook_sent'', ''INTEGER'', Integer 0)]
      else if t = ''webhook_events'' then Some
        [(''id'', ''TEXT'', Null), (''job_id'', ''TEXT'', Null), (''event_type'', ''TEXT'', Null),
         (''status'', ''TEXT'', Null), (''payload'', ''TEXT'', Null), (''sent_at'', ''TEXT'', Null),
         (''endpoint'', ''TEXT'', Null)]
      else None)"

text \<open>
  What the code leaves to SQLite and to \<open>json\<close>, as parameters: the conversion a column of a
  declared type applies to a value stored in it or compared with it (type affinity), the order
  of \<open>ORDER BY\<close>, and \<open>json.loads\<close> (\<open>None\<close> when it raises).
\<close>

record engine =
  affinity :: "string \<Rightarrow> val \<Rightarrow> val"
  sql_le :: "val \<Rightarrow> val \<Rightarrow> bool"
  json_loads :: "string \<Rightarrow> val option"

text \<open>The builder's clause strings \<open>col = ?\<close> and \<open>col IN (?, ..., ?)\<close>.\<close>

datatype clause = EqClause string | InClause string nat

text \<open>
  \<open>TableQueryBuilder\<close>. \<open>select_columns\<close> is the list of the comma-separated items of the
  source's string, \<open>order_by_clause\<close> a column and whether the direction is \<open>DESC\<close>.
\<close>

record TableQueryBuilder =
  select_columns :: "string list"
  where_clauses :: "clause list"
  where_params :: "val list"
  order_by_clause :: "(string \<times> bool) option"
  limit_clause :: "int option"
  offset_clause :: "int option"

definition reset_query :: TableQueryBuilder where
  "reset_query =
     \<lparr>select_columns = [''*''], where_clauses = [], where_params = [],
      order_by_clause = None, limit_clause = None, offset_clause = None\<rparr>"

text \<open>
  \<open>LocalSupabaseFallback\<close>: the rows of each table in rowid order, each row aligned with the
  columns of the schema, and the builders cached in \<open>_tables\<close>.
\<close>

record LocalSupabaseFallback =
  table_rows :: "string \<Rightarrow> val list list"
  builders :: "string \<rightharpoonup> TableQueryBuilder"

definition new_supabase_fallback :: LocalSupabaseFallback where
  "new_supabase_fallback = \<lparr>table_rows = (\<lambda>t. []), builders = Map.empty\<rparr>"

text \<open>\<open>table\<close>: the cached builder of a table, created on first use.\<close>

definition builder_of :: "string \<Rightarrow> LocalSupabaseFallback \<Rightarrow> TableQueryBuilder" where
  "builder_of t st = (case builders st t of None \<Rightarrow> reset_query | Some b \<Rightarrow> b)"

definition with_builder ::
  "string \<Rightarrow> (TableQueryBuilder \<Rightarrow> TableQueryBuilder) \<Rightarrow> LocalSupabaseFallback \<Rightarrow> LocalSupabaseFallback" where
  "with_builder t f st = st\<lparr>builders := (builders st)(t \<mapsto> f (builder_of t st))\<rparr>"

text \<open>The chaining methods \<open>select\<close>, \<open>eq\<close>, \<open>in_\<close>, \<open>limit\<close>, \<open>order\<close> and \<open>offset\<close>.\<close>

definition sb_select :: "string \<Rightarrow> string list \<Rightarrow> LocalSupabaseFallback \<Rightarrow> LocalSupabaseFallback" where
  "sb_select t columns = with_builder t (\<lambda>b. b\<lparr>select_columns := columns\<rparr>)"

definition sb_eq :: "string \<Rightarrow> string \<Rightarrow> val \<Rightarrow> LocalSupabaseFallback \<Rightarrow> LocalSupabaseFallback" where
  "sb_eq t col v =
     with_builder t (\<lambda>b. b\<lparr>where_clauses := where_clauses b @ [EqClause col],
                            where_params := where_params b @ [v]\<rparr>)"

definition sb_in :: "string \<Rightarrow> string \<Rightarrow> val list \<Rightarrow> LocalSupabaseFallback \<Rightarrow> LocalSupabaseFallback" where
  "sb_in t col vs =
     with_builder t (\<lambda>b. b\<lparr>where_clauses := where_clauses b @ [InClause col (length vs)],
                            where_params := where_params b @ vs\<rparr>)"

definition sb_limit :: "string \<Rightarrow> int \<Rightarrow> LocalSupabaseFallback \<Rightarrow> LocalSupabaseFallback" where
  "sb_limit t n = with_builder t (\<lambda>b. b\<lparr>limit_clause := Some n\<rparr>)"

definition sb_order :: "string \<Rightarrow> string \<Rightarrow> bool \<Rightarrow> LocalSupabaseFallback \<Rightarrow> LocalSupabaseFallback" where
  "sb_order t col descending = with_builder t (\<lambda>b. b\<lparr>order_by_clause := Some (col, descending)\<rparr>)"

definition sb_offset :: "string \<Rightarrow> int \<Rightarrow> LocalSupabaseFallback \<Rightarrow> LocalSupabaseFallback" where
  "sb_offset t n = with_builder t (\<lambda>b. b\<lparr>offset_clause := Some n\<rparr>)"

text \<open>
  The SQLite side. The value of a column in a row, the test \<open>=\<close> of a \<open>WHERE\<close> clause (never
  true on \<open>NULL\<close>), and whether a name is a column.
\<close>

definition cell :: "(string \<times> string \<times> val) list \<Rightarrow> val list \<Rightarrow> string \<Rightarrow> val option" where
  "cell schema row col = map_of (zip (map fst schema) row) col"

definition sql_eq :: "val \<Rightarrow> val \<Rightarrow> bool" where
  "sql_eq a b \<longleftrightarrow> a \<noteq> Null \<and> b \<noteq> Null \<and> a = b"

definition is_column :: "(string \<times> string \<times> val) list \<Rightarrow> string \<Rightarrow> bool" where
  "is_column schema col \<longleftrightarrow> col \<in> set (map fst schema)"

text \<open>
  A statement is prepared before any row is read: every clause must name a column and the
  parameters must be as many as the placeholders.
\<close>

fun clauses_valid :: "(string \<times> string \<times> val) list \<Rightarrow> clause list \<Rightarrow> val list \<Rightarrow> bool" where
  "clauses_valid schema [] ps = (ps = [])"
| "clauses_valid schema (EqClause col # cs) ps =
     (is_column schema col \<and> ps \<noteq> [] \<and> clauses_valid schema cs (tl ps))"
| "clauses_valid schema (InClause col n # cs) ps =
     (is_column schema col \<and> n \<le> length ps \<and> clauses_valid schema cs (drop n ps))"

text \<open>The clauses are joined by \<open>AND\<close>: a row is taken when each of them is true.\<close>

fun row_matches ::
  "engine \<Rightarrow> (string \<times> string \<times> val) list \<Rightarrow> val list \<Rightarrow> clause list \<Rightarrow> val list \<Rightarrow> bool" where
  "row_matches eng schema row [] ps = True"
| "row_matches eng schema row (EqClause col # cs) ps =
     (case (cell schema row col, map_of schema col, ps) of
        (Some v, Some (ty, dflt), p # ps') \<Rightarrow>
          sql_eq v (affinity eng ty p) \<and> row_matches eng schema row cs ps'
      | _ \<Rightarrow> False)"
| "row_matches eng schema row (InClause col n # cs) ps =
     (case (cell schema row col, map_of schema col) of
        (Some v, Some (ty, dflt)) \<Rightarrow>
          list_ex (\<lambda>p. sql_eq v (affinity eng ty p)) (take n ps) \<and>
          row_matches eng schema row cs (drop n ps)
      | _ \<Rightarrow> False)"

text \<open>\<open>ORDER BY\<close> as an insertion sort by the engine's order, kept stable.\<close>

fun insort_by :: "('a \<Rightarrow> 'a \<Rightarrow> bool) \<Rightarrow> 'a \<Rightarrow> 'a list \<Rightarrow> 'a list" where
  "insort_by le x [] = [x]"
| "insort_by le x (y # ys) = (if le x y then x # y # ys else y # insort_by le x ys)"

definition sort_by :: "('a \<Rightarrow> 'a \<Rightarrow> bool) \<Rightarrow> 'a list \<Rightarrow> 'a list" where
  "sort_by le xs = foldr (insort_by le) xs []"

definition order_rows ::
  "engine \<Rightarrow> (string \<times> string \<times> val) list \<Rightarrow> (string \<times> bool) option \<Rightarrow> val list list \<Rightarrow> val list list" where
  "order_rows eng schema ob rows =
     (case ob of
        None \<Rightarrow> rows
      | Some (col, descending) \<Rightarrow>
          sort_by (\<lambda>r1 r2.
              (case (cell schema r1 col, cell schema r2 col) of
                 (Some a, Some b) \<Rightarrow> (if descending then sql_le eng b a else sql_le eng a b)
               | _ \<Rightarrow> True))
            rows)"

text \<open>\<open>LIMIT\<close> and \<open>OFFSET\<close>: a negative limit is no limit, a negative offset is 0.\<close>

definition limit_rows :: "int option \<Rightarrow> int option \<Rightarrow> 'a list \<Rightarrow> 'a list" where
  "limit_rows limit_n off rows =
     (case limit_n of
        None \<Rightarrow> rows
      | Some n \<Rightarrow>
          (let rest = drop (case off of None \<Rightarrow> 0 | Some m \<Rightarrow> nat m) rows
           in if n < 0 then rest else take (nat n) rest))"

definition project :: "(string \<times> string \<times> val) list \<Rightarrow> string list \<Rightarrow> val list \<Rightarrow> val list" where
  "project schema cols row =
     concat (map (\<lambda>c. if c = ''*'' then row
                       else (case cell schema row c of None \<Rightarrow> [] | Some v \<Rightarrow> [v])) cols)"

text \<open>
  The statement of \<open>_build_query\<close>, run on the rows of the table: \<open>None\<close> is an exception
  of SQLite (no such table or column, \<open>OFFSET\<close> without \<open>LIMIT\<close>).
\<close>

definition run_select ::
  "engine \<Rightarrow> string \<Rightarrow> TableQueryBuilder \<Rightarrow> val list list \<Rightarrow> val list list option" where
  "run_select eng t b rows =
     (case table_schema t of
        None \<Rightarrow> None
      | Some schema \<Rightarrow>
          if \<not> clauses_valid schema (where_clauses b) (where_params b) then None
          else if select_columns b = [] then None
          else if \<not> list_all (\<lambda>c. c = ''*'' \<or> is_column schema c) (select_columns b) then None
          else if (case order_by_clause b of None \<Rightarrow> False
                   | Some (col, descending) \<Rightarrow> \<not> is_column schema col) then None
          else if offset_clause b \<noteq> None \<and> limit_clause b = None then None
          else Some (map (project schema (select_columns b))
                 (limit_rows (limit_clause b) (offset_clause b)
                    (order_rows eng schema (order_by_clause b)
                       (filter (\<lambda>r. row_matches eng schema r (where_clauses b) (where_params b))
                          rows)))))"

text \<open>
  \<open>INSERT INTO t (columns) VALUES (...)\<close>: the columns not named take their defaults, and a
  non-null primary key that is already in the table is refused.
\<close>

definition run_insert :: "engine \<Rightarrow> string \<Rightarrow> record_dict \<Rightarrow> val list list \<Rightarrow> val list list option" where
  "run_insert eng t data_copy rows =
     (case table_schema t of
        None \<Rightarrow> None
      | Some schema \<Rightarrow>
          if data_copy = [] then None
          else if \<not> list_all (is_column schema) (map fst data_copy) then None
          else
            (let new_row = map (\<lambda>(col, ty, dflt).
                                  (case map_of data_copy col of
                                     Some v \<Rightarrow> affinity eng ty v
                                   | None \<Rightarrow> dflt)) schema;
                 key = cell schema new_row ''id''
             in if key \<noteq> Some Null \<and> key \<in> set (map (\<lambda>r. cell schema r ''id'') rows) then None
                else Some (rows @ [new_row])))"

text \<open>\<open>DELETE FROM t WHERE ...\<close>.\<close>

definition run_delete ::
  "engine \<Rightarrow> string \<Rightarrow> TableQueryBuilder \<Rightarrow> val list list \<Rightarrow> val list list option" where
  "run_delete eng t b rows =
     (case table_schema t of
        None \<Rightarrow> None
      | Some schema \<Rightarrow>
          if \<not> clauses_valid schema (where_clauses b) (where_params b) then None
          else Some (filter (\<lambda>r. \<not> row_matches eng schema r (where_clauses b) (where_params b))
                      rows))"

text \<open>
  The conversion of a result row to a dictionary in \<open>execute\<close>: the values are paired with
  the columns of the table from the left, and a non-empty text in one of the four JSON columns
  is decoded when \<open>json.loads\<close> accepts it.
\<close>

definition truthy :: "val \<Rightarrow> bool" where
  "truthy v =
     (case v of Null \<Rightarrow> False | Text s \<Rightarrow> s \<noteq> [] | Integer n \<Rightarrow> n \<noteq> 0
      | Float x \<Rightarrow> x \<noteq> 0 | Obj j \<Rightarrow> True)"

definition decode :: "engine \<Rightarrow> string \<Rightarrow> val \<Rightarrow> val" where
  "decode eng col_name v =
     (if col_name \<in> set [''tags'', ''metadata'', ''params'', ''payload''] \<and> truthy v
      then (case v of
              Text s \<Rightarrow> (case json_loads eng s of None \<Rightarrow> v | Some j \<Rightarrow> j)
            | _ \<Rightarrow> v)
      else v)"

definition row_dict :: "engine \<Rightarrow> string list \<Rightarrow> val list \<Rightarrow> record_dict" where
  "row_dict eng columns row = map (\<lambda>(col_name, v). (col_name, decode eng col_name v)) (zip columns row)"

text \<open>
  \<open>TableQueryBuilder.execute\<close>: the \<open>data\<close> of the response and the store after the call.
  \<open>io_ok = False\<close> stands for an exception of the database connection. The query is reset
  on success only; the handler returns the empty response and leaves the builder as it is.
\<close>

definition sb_execute ::
  "engine \<Rightarrow> bool \<Rightarrow> string \<Rightarrow> LocalSupabaseFallback \<Rightarrow> record_dict list \<times> LocalSupabaseFallback" where
  "sb_execute eng io_ok t st0 =
     (let st = with_builder t (\<lambda>b. b) st0;
          b = builder_of t st
      in case (if io_ok then run_select eng t b (table_rows st t) else None) of
           None \<Rightarrow> ([], st)
         | Some results \<Rightarrow>
             (let columns = (case table_schema t of None \<Rightarrow> [] | Some schema \<Rightarrow> map fst schema)
              in (map (row_dict eng columns) results, with_builder t (\<lambda>b. reset_query) st)))"

text \<open>
  \<open>TableQueryBuilder.insert\<close>: dictionaries and lists are stored as their JSON text; the
  response carries the record as it was passed in.
\<close>

definition sb_insert ::
  "engine \<Rightarrow> bool \<Rightarrow> string \<Rightarrow> record_dict \<Rightarrow> LocalSupabaseFallback
     \<Rightarrow> record_dict list \<times> LocalSupabaseFallback" where
  "sb_insert eng io_ok t record st0 =
     (let st = with_builder t (\<lambda>b. b) st0;
          data_copy = map (\<lambda>(key, v). (key, (case v of Obj j \<Rightarrow> Text j | _ \<Rightarrow> v))) record
      in case (if io_ok then run_insert eng t data_copy (table_rows st t) else None) of
           None \<Rightarrow> ([], st)
         | Some rows' \<Rightarrow> ([record], st\<lparr>table_rows := (table_rows st)(t := rows')\<rparr>))"

text \<open>\<open>TableQueryBuilder.delete\<close>: the response is empty either way, the query is not reset.\<close>

definition sb_delete ::
  "engine \<Rightarrow> bool \<Rightarrow> string \<Rightarrow> LocalSupabaseFallback \<Rightarrow> record_dict list \<times> LocalSupabaseFallback" where
  "sb_delete eng io_ok t st0 =
     (let st = with_builder t (\<lambda>b. b) st0;
          b = builder_of t st
      in case (if io_ok then run_delete eng t b (table_rows st t) else None) of
           None \<Rightarrow> ([], st)
         | Some rows' \<Rightarrow> ([], st\<lparr>table_rows := (table_rows st)(t := rows')\<rparr>))"

text \<open>The primary key of a row of a table.\<close>

definition row_id :: "string \<Rightarrow> val list \<Rightarrow> val option" where
  "row_id t row = (case table_schema t of None \<Rightarrow> None | Some schema \<Rightarrow> cell schema row ''id'')"

section \<open>Properties of the circuit breaker\<close>

text \<open>
  C3. \<open>allow_request\<close> answers true and leaves the breaker alone when it is CLOSED or
  HALF\_OPEN. When it is OPEN and the time since the last recorded failure does not exceed
  \<open>recovery_timeout\<close> the answer is false and the breaker is unchanged; otherwise the
  breaker moves to HALF\_OPEN (nothing else changes) and the answer is true.
\<close>

theorem allow_request_spec:
  "(state b = CLOSED \<or> state b = HALF_OPEN \<longrightarrow> allow_request t b = (True, b)) \<and>
   (state b = OPEN \<and> t - last_failure_time b \<le> real_of_int (recovery_timeout b)
      \<longrightarrow> allow_request t b = (False, b)) \<and>
   (state b = OPEN \<and> t - last_failure_time b > real_of_int (recovery_timeout b)
      \<longrightarrow> allow_request t b = (True, b\<lparr>state := HALF_OPEN\<rparr>))"
  by (cases "state b") (simp_all add: allow_request_def)

theorem allow_request_spec_witness:
  "allow_request 10 (new_breaker 0 5 60 300) = (True, new_breaker 0 5 60 300) \<and>
   allow_request 30 ((new_breaker 0 5 60 300)\<lparr>state := OPEN, last_failure_time := 20\<rparr>)
     = (False, (new_breaker 0 5 60 300)\<lparr>state := OPEN, last_failure_time := 20\<rparr>) \<and>
   allow_request 100 ((new_breaker 0 5 60 300)\<lparr>state := OPEN, last_failure_time := 20\<rparr>)
     = (True, (new_breaker 0 5 60 300)\<lparr>state := HALF_OPEN, last_failure_time := 20\<rparr>)"
  using allow_request_spec [of "new_breaker 0 5 60 300" 10]
    allow_request_spec [of "(new_breaker 0 5 60 300)\<lparr>state := OPEN, last_failure_time := 20\<rparr>" 30]
    allow_request_spec [of "(new_breaker 0 5 60 300)\<lparr>state := OPEN, last_failure_time := 20\<rparr>" 100]
  by (simp add: new_breaker_def)

text \<open>
  C6. A \<open>record_success\<close> on a breaker that is HALF\_OPEN closes it and sets its
  \<open>failure_count\<close> to 0.
\<close>

theorem record_success_half_open:
  "state b = HALF_OPEN \<Longrightarrow>
     state (record_success t b) = CLOSED \<and> failure_count (record_success t b) = 0"
  by (simp add: record_success_def)

theorem record_success_half_open_witness:
  "state ((new_breaker 0 5 60 300)\<lparr>state := HALF_OPEN, failure_count := 5\<rparr>) = HALF_OPEN \<and>
   state (record_success 7 ((new_breaker 0 5 60 300)\<lparr>state := HALF_OPEN, failure_count := 5\<rparr>))
     = CLOSED \<and>
   failure_count (record_success 7 ((new_breaker 0 5 60 300)\<lparr>state := HALF_OPEN, failure_count := 5\<rparr>))
     = 0"
  using record_success_half_open
    [of "(new_breaker 0 5 60 300)\<lparr>state := HALF_OPEN, failure_count := 5\<rparr>" 7]
  by (simp add: new_breaker_def)

text \<open>
  C9. A \<open>record_success\<close> on a breaker that is CLOSED changes the last-success timestamp
  and nothing else: the state stays CLOSED and \<open>failure_count\<close> keeps its value, so
  successes recorded while CLOSED never reduce the accumulated failure count.
\<close>

theorem record_success_closed_frame:
  "state b = CLOSED \<Longrightarrow>
     record_success t b = b\<lparr>last_success_time := t\<rparr> \<and>
     state (record_success t b) = CLOSED \<and>
     failure_count (record_success t b) = failure_count b"
  by (simp add: record_success_def)

theorem record_success_closed_frame_witness:
  "state ((new_breaker 0 5 60 300)\<lparr>failure_count := 3\<rparr>) = CLOSED \<and>
   record_success 7 ((new_breaker 0 5 60 300)\<lparr>failure_count := 3\<rparr>)
     = (new_breaker 0 5 60 300)\<lparr>failure_count := 3, last_success_time := 7\<rparr> \<and>
   failure_count (record_success 7 ((new_breaker 0 5 60 300)\<lparr>failure_count := 3\<rparr>)) = 3"
  using record_success_closed_frame [of "(new_breaker 0 5 60 300)\<lparr>failure_count := 3\<rparr>" 7]
  by (simp add: new_breaker_def)

text \<open>
  The reset test of \<open>record_failure\<close> compares the current reading with the field it has
  just overwritten, so with a non-negative \<open>reset_timeout\<close> every call adds one to the
  count, whatever the time since the previous failure.
\<close>

lemma record_failure_count:
  "0 \<le> reset_timeout b \<Longrightarrow> failure_count (record_failure t b) = failure_count b + 1"
  by (simp add: record_failure_def Let_def)

text \<open>
  C1 (the code at the failing input). Threshold 2, \<open>reset_timeout\<close> 300: one failure at
  time 100 and the next at time 1000, 900 seconds later. The count is not reset by the
  second call: it reaches 2 and the breaker opens, with one failure in the reset window.
\<close>

theorem record_failure_stale_window_opens:
  "failure_count (record_failures [100, 1000] (new_breaker 0 2 60 300)) = 2 \<and>
   state (record_failures [100, 1000] (new_breaker 0 2 60 300)) = OPEN \<and>
   state (record_failures [100] (new_breaker 0 2 60 300)) = CLOSED"
  by (simp add: record_failure_def new_breaker_def Let_def)

section \<open>Properties of the error monitor\<close>

text \<open>
  What can leave the \<open>try\<close> block: the exception of \<open>str(error)\<close>, with nothing recorded
  yet, or the exception of a recording step, on which \<open>str()\<close> returns.
\<close>

lemma fault_exn_str: "\<exists>msg. py_str (fault_exn p) = Inr msg"
  by (cases p) (simp_all add: fault_exn_def)

lemma track_error_try_raises:
  "track_error_try faults now error ctx severity m = (Some e, m') \<Longrightarrow>
   py_str error = Inl e \<and> m' = m \<or> (\<exists>p msg. e = fault_exn p \<and> py_str error = Inr msg)"
  by (auto simp: track_error_try_def Let_def split: sum.splits if_splits)

lemma track_error_try_str_raises:
  "py_str error = Inl x \<Longrightarrow> track_error_try faults now error ctx severity m = (Some x, m)"
  by (simp add: track_error_try_def)

text \<open>The \<open>try\<close> block itself can be left by an exception, here at the count.\<close>

lemma track_error_try_can_raise:
  "fst (track_error_try (\<lambda>p. p = AtCount) now (Exn t msg) ctx severity m)
     = Some (fault_exn AtCount)"
  by (simp add: track_error_try_def Let_def)

lemma py_str_twice: "py_str e = Inl x \<Longrightarrow> py_str x = Inl y \<Longrightarrow> x = e \<and> y = e"
  by (cases e) auto

lemma track_error_outcome:
  "(\<exists>m'. track_error faults now error ctx severity m = (None, m')) \<or>
   track_error faults now error ctx severity m = (Some error, m) \<and> \<not> loggable error"
proof (cases "track_error_try faults now error ctx severity m")
  case (Pair r m')
  show ?thesis
  proof (cases r)
    case None
    then show ?thesis using Pair by (simp add: track_error_def)
  next
    case (Some e)
    from track_error_try_raises [OF Pair [unfolded Some]]
    show ?thesis
    proof
      assume a: "py_str error = Inl e \<and> m' = m"
      show ?thesis
      proof (cases "py_str e")
        case (Inr msg)
        then show ?thesis using Pair Some by (simp add: track_error_def)
      next
        case (Inl y)
        with a py_str_twice [of error e y] have "e = error" "y = error" by auto
        then show ?thesis using Pair Some a Inl by (simp add: track_error_def loggable_def)
      qed
    next
      assume "\<exists>p msg. e = fault_exn p \<and> py_str error = Inr msg"
      then obtain p where "e = fault_exn p" by blast
      then show ?thesis using Pair Some fault_exn_str [of p] by (auto simp: track_error_def)
    qed
  qed
qed

text \<open>
  C10, as the code has it. For every context and severity, whichever of the recording steps
  fail (the count, the last-error record, the breaker, the detail file, the summary file),
  and for every error on which \<open>str()\<close> returns or raises an exception that can itself be
  formatted, \<open>track_error\<close> returns normally: the failure is caught and logged. For an error
  whose \<open>__str__\<close> raises the error itself, the log line of the handler raises it again:
  \<open>track_error\<close> hands that error to its caller and has recorded nothing.
\<close>

theorem track_error_raises_only_unloggable:
  "(loggable error \<longrightarrow> fst (track_error faults now error ctx severity m) = None) \<and>
   (\<not> loggable error \<longrightarrow> track_error faults now error ctx severity m = (Some error, m))"
proof (intro conjI impI)
  assume "loggable error"
  then show "fst (track_error faults now error ctx severity m) = None"
    using track_error_outcome [of faults now error ctx severity m] by auto
next
  assume n: "\<not> loggable error"
  then obtain x where x: "py_str error = Inl x"
    by (cases "py_str error") (auto simp: loggable_def)
  with n obtain y where y: "py_str x = Inl y"
    by (cases "py_str x") (auto simp: loggable_def)
  from py_str_twice [OF x y] have "x = error" "y = error" by auto
  then show "track_error faults now error ctx severity m = (Some error, m)"
    using x y by (simp add: track_error_def track_error_try_str_raises)
qed

theorem track_error_raises_only_unloggable_witness:
  "loggable (Exn ''ValueError'' ''boom'') \<and>
   fst (track_error (\<lambda>p. p = AtCount) 0 (Exn ''ValueError'' ''boom'') ''api'' MEDIUM
          new_error_monitor) = None \<and>
   loggable (StrRaises ''Odd'' ''TypeError'' ''bad str'') \<and>
   fst (track_error (\<lambda>p. p = AtSummaryFile) 0 (StrRaises ''Odd'' ''TypeError'' ''bad str'') ''api''
          MEDIUM new_error_monitor) = None \<and>
   \<not> loggable (StrRaisesSelf ''Odd'') \<and>
   track_error (\<lambda>p. False) 0 (StrRaisesSelf ''Odd'') ''api'' MEDIUM new_error_monitor
     = (Some (StrRaisesSelf ''Odd''), new_error_monitor)"
  using track_error_raises_only_unloggable
      [of "Exn ''ValueError'' ''boom''" "\<lambda>p. p = AtCount" 0 "''api''" MEDIUM new_error_monitor]
    track_error_raises_only_unloggable
      [of "StrRaises ''Odd'' ''TypeError'' ''bad str''" "\<lambda>p. p = AtSummaryFile" 0 "''api''" MEDIUM
          new_error_monitor]
    track_error_raises_only_unloggable
      [of "StrRaisesSelf ''Odd''" "\<lambda>p. False" 0 "''api''" MEDIUM new_error_monitor]
  by (simp add: loggable_def)

text \<open>
  C10 as stated fails for an error whose \<open>__str__\<close> raises the error itself: it leaves
  \<open>track_error\<close>.
\<close>

theorem track_error_propagates_counterexample:
  "fst (track_error (\<lambda>p. False) 0 (StrRaisesSelf ''Odd'') ''api'' MEDIUM new_error_monitor)
     = Some (StrRaisesSelf ''Odd'')"
  by (simp add: track_error_def track_error_try_def)

section \<open>Properties of the connection manager\<close>

lemma circuit_is_closed_refused:
  "\<not> fst (circuit_is_closed now c m) \<Longrightarrow> snd (circuit_is_closed now c m) = m"
  by (auto simp: circuit_is_closed_def allow_request_def map_upd_triv
      split: option.splits CircuitState.splits if_splits)

lemma on_primary_failure_outcome:
  "\<exists>r s'. on_primary_failure faults now dep ctx e s = (r, s') \<and> (r = None \<or> r = Some e)"
  using track_error_outcome [of faults now e ctx HIGH "monitor s"]
  by (auto simp: on_primary_failure_def)

lemma try_primary_fails:
  "primary_connect w dep = Some e \<or> primary_connect w dep = None \<and> primary_probe w dep = Some e
     \<Longrightarrow> \<exists>s'. try_primary w now dep ctx s = (Some e, s')"
  by (auto simp: try_primary_def Let_def)

lemma supabase_refused:
  assumes "\<not> fst (circuit_is_closed now ''supabase_connection'' (monitor s))"
  shows "get_supabase_client w faults now False s
           = (Inl (Exn ''RuntimeError'' ''Supabase circuit breaker is open''), s)"
  using assms circuit_is_closed_refused [OF assms]
  by (auto simp: get_supabase_client_def Let_def split: prod.splits)

lemma pinecone_refused:
  assumes "\<not> fst (circuit_is_closed now ''pinecone_connection'' (monitor s))"
  shows "get_pinecone_client w faults now False s
           = (Inl (Exn ''RuntimeError'' ''Pinecone circuit breaker is open''), s)"
  using assms circuit_is_closed_refused [OF assms]
  by (auto simp: get_pinecone_client_def Let_def split: prod.splits)

lemma supabase_reraises:
  assumes ok: "fst (circuit_is_closed now ''supabase_connection'' (monitor s))"
    and fail: "primary_connect w ''supabase'' = Some e \<or>
               primary_connect w ''supabase'' = None \<and> primary_probe w ''supabase'' = Some e"
  shows "fst (get_supabase_client w faults now False s) = Inl e"
proof -
  obtain mon where c: "circuit_is_closed now ''supabase_connection'' (monitor s) = (True, mon)"
    using ok by (cases "circuit_is_closed now ''supabase_connection'' (monitor s)") auto
  obtain s1 where t: "try_primary w now ''supabase'' ''supabase_connection'' (s\<lparr>monitor := mon\<rparr>)
                        = (Some e, s1)"
    using try_primary_fails [OF fail] by blast
  obtain r s2 where h: "on_primary_failure faults now ''supabase'' ''supabase_connection'' e s1
                        = (r, s2)" and r: "r = None \<or> r = Some e"
    using on_primary_failure_outcome by blast
  show ?thesis using r by (auto simp: get_supabase_client_def c t h)
qed

lemma pinecone_reraises:
  assumes ok: "fst (circuit_is_closed now ''pinecone_connection'' (monitor s))"
    and fail: "primary_connect w ''pinecone'' = Some e \<or>
               primary_connect w ''pinecone'' = None \<and> primary_probe w ''pinecone'' = Some e"
  shows "fst (get_pinecone_client w faults now False s) = Inl e"
proof -
  obtain mon where c: "circuit_is_closed now ''pinecone_connection'' (monitor s) = (True, mon)"
    using ok by (cases "circuit_is_closed now ''pinecone_connection'' (monitor s)") auto
  obtain s1 where t: "try_primary w now ''pinecone'' ''pinecone_connection'' (s\<lparr>monitor := mon\<rparr>)
                        = (Some e, s1)"
    using try_primary_fails [OF fail] by blast
  obtain r s2 where h: "on_primary_failure faults now ''pinecone'' ''pinecone_connection'' e s1
                        = (r, s2)" and r: "r = None \<or> r = Some e"
    using on_primary_failure_outcome by blast
  show ?thesis using r by (auto simp: get_pinecone_client_def c t h)
qed

lemma supabase_primary_only:
  "fst (get_supabase_client w faults now False s) \<noteq> Inr SecondaryClient \<and>
   fst (get_supabase_client w faults now False s) \<noteq> Inr LocalFallback"
  by (auto simp: get_supabase_client_def Let_def split: prod.splits option.splits)

lemma pinecone_primary_only:
  "fst (get_pinecone_client w faults now False s) \<noteq> Inr SecondaryClient \<and>
   fst (get_pinecone_client w faults now False s) \<noteq> Inr LocalFallback"
  by (auto simp: get_pinecone_client_def Let_def split: prod.splits option.splits)

text \<open>
  C5. With \<open>use_fallback = False\<close> neither getter ever returns the secondary-credential
  client or the local fallback engine. If the breaker refuses the request the call raises the
  circuit-open \<open>RuntimeError\<close> and the whole state, the trace of I/O attempts included, is
  as before the call. If the request is allowed and building or probing the primary client
  raises \<open>e\<close>, the call raises that same \<open>e\<close>.
\<close>

theorem get_client_without_fallback:
  "(\<not> fst (circuit_is_closed now ''supabase_connection'' (monitor s)) \<longrightarrow>
      get_supabase_client w faults now False s
        = (Inl (Exn ''RuntimeError'' ''Supabase circuit breaker is open''), s)) \<and>
   (fst (circuit_is_closed now ''supabase_connection'' (monitor s)) \<and>
    (primary_connect w ''supabase'' = Some e \<or>
     primary_connect w ''supabase'' = None \<and> primary_probe w ''supabase'' = Some e) \<longrightarrow>
      fst (get_supabase_client w faults now False s) = Inl e) \<and>
   fst (get_supabase_client w faults now False s) \<noteq> Inr SecondaryClient \<and>
   fst (get_supabase_client w faults now False s) \<noteq> Inr LocalFallback \<and>
   (\<not> fst (circuit_is_closed now ''pinecone_connection'' (monitor s)) \<longrightarrow>
      get_pinecone_client w faults now False s
        = (Inl (Exn ''RuntimeError'' ''Pinecone circuit breaker is open''), s)) \<and>
   (fst (circuit_is_closed now ''pinecone_connection'' (monitor s)) \<and>
    (primary_connect w ''pinecone'' = Some e \<or>
     primary_connect w ''pinecone'' = None \<and> primary_probe w ''pinecone'' = Some e) \<longrightarrow>
      fst (get_pinecone_client w faults now False s) = Inl e) \<and>
   fst (get_pinecone_client w faults now False s) \<noteq> Inr SecondaryClient \<and>
   fst (get_pinecone_client w faults now False s) \<noteq> Inr LocalFallback"
  using supabase_refused [of now s w faults] pinecone_refused [of now s w faults]
    supabase_reraises [of now s w e faults] pinecone_reraises [of now s w e faults]
    supabase_primary_only [of w faults now s] pinecone_primary_only [of w faults now s]
  by blast

theorem get_client_without_fallback_witness:
  "get_supabase_client
     \<lparr>primary_connect = (\<lambda>d. None), primary_probe = (\<lambda>d. Some (Exn ''ConnectionError'' ''down'')),
      backup_keys = (\<lambda>k. ''backup''), secondary_connect = (\<lambda>d. None),
      secondary_probe = (\<lambda>d. None), local_init = (\<lambda>d. None)\<rparr>
     (\<lambda>p. False) 20 False
     ((new_connection_manager 0)\<lparr>monitor := new_error_monitor\<lparr>circuit_breakers :=
        (\<lambda>c. Some ((new_breaker 0 5 60 300)\<lparr>state := OPEN, failure_count := 5,
                       last_failure_time := 10\<rparr>))\<rparr>\<rparr>)
     = (Inl (Exn ''RuntimeError'' ''Supabase circuit breaker is open''),
        (new_connection_manager 0)\<lparr>monitor := new_error_monitor\<lparr>circuit_breakers :=
        (\<lambda>c. Some ((new_breaker 0 5 60 300)\<lparr>state := OPEN, failure_count := 5,
                       last_failure_time := 10\<rparr>))\<rparr>\<rparr>) \<and>
   get_pinecone_client
     \<lparr>primary_connect = (\<lambda>d. None), primary_probe = (\<lambda>d. Some (Exn ''ConnectionError'' ''down'')),
      backup_keys = (\<lambda>k. ''backup''), secondary_connect = (\<lambda>d. None),
      secondary_probe = (\<lambda>d. None), local_init = (\<lambda>d. None)\<rparr>
     (\<lambda>p. False) 20 False
     ((new_connection_manager 0)\<lparr>monitor := new_error_monitor\<lparr>circuit_breakers :=
        (\<lambda>c. Some ((new_breaker 0 5 60 300)\<lparr>state := OPEN, failure_count := 5,
                       last_failure_time := 10\<rparr>))\<rparr>\<rparr>)
     = (Inl (Exn ''RuntimeError'' ''Pinecone circuit breaker is open''),
        (new_connection_manager 0)\<lparr>monitor := new_error_monitor\<lparr>circuit_breakers :=
        (\<lambda>c. Some ((new_breaker 0 5 60 300)\<lparr>state := OPEN, failure_count := 5,
                       last_failure_time := 10\<rparr>))\<rparr>\<rparr>) \<and>
   fst (get_supabase_client
     \<lparr>primary_connect = (\<lambda>d. None), primary_probe = (\<lambda>d. Some (Exn ''ConnectionError'' ''down'')),
      backup_keys = (\<lambda>k. ''backup''), secondary_connect = (\<lambda>d. None),
      secondary_probe = (\<lambda>d. None), local_init = (\<lambda>d. None)\<rparr>
     (\<lambda>p. False) 20 False (new_connection_manager 0)) = Inl (Exn ''ConnectionError'' ''down'') \<and>
   fst (get_pinecone_client
     \<lparr>primary_connect = (\<lambda>d. None), primary_probe = (\<lambda>d. Some (Exn ''ConnectionError'' ''down'')),
      backup_keys = (\<lambda>k. ''backup''), secondary_connect = (\<lambda>d. None),
      secondary_probe = (\<lambda>d. None), local_init = (\<lambda>d. None)\<rparr>
     (\<lambda>p. False) 20 False (new_connection_manager 0)) = Inl (Exn ''ConnectionError'' ''down'')"
  using get_client_without_fallback [of 20
     "(new_connection_manager 0)\<lparr>monitor := new_error_monitor\<lparr>circuit_breakers :=
        (\<lambda>c. Some ((new_breaker 0 5 60 300)\<lparr>state := OPEN, failure_count := 5,
                       last_failure_time := 10\<rparr>))\<rparr>\<rparr>"
     "\<lparr>primary_connect = (\<lambda>d. None), primary_probe = (\<lambda>d. Some (Exn ''ConnectionError'' ''down'')),
      backup_keys = (\<lambda>k. ''backup''), secondary_connect = (\<lambda>d. None),
      secondary_probe = (\<lambda>d. None), local_init = (\<lambda>d. None)\<rparr>"
     "\<lambda>p. False" "Exn ''ConnectionError'' ''down''"]
   get_client_without_fallback [of 20 "new_connection_manager 0"
     "\<lparr>primary_connect = (\<lambda>d. None), primary_probe = (\<lambda>d. Some (Exn ''ConnectionError'' ''down'')),
      backup_keys = (\<lambda>k. ''backup''), secondary_connect = (\<lambda>d. None),
      secondary_probe = (\<lambda>d. None), local_init = (\<lambda>d. None)\<rparr>"
     "\<lambda>p. False" "Exn ''ConnectionError'' ''down''"]
  by (simp add: circuit_is_closed_def allow_request_def new_connection_manager_def
      register_circuit_breaker_def new_error_monitor_def new_breaker_def)

section \<open>Properties of the tiered cache\<close>

text \<open>
  C2 (the code at the failing input). Bound 1, disk tier off: two \<open>set\<close> calls without a
  ttl. The eviction sorts the keys of \<open>_expiry_times\<close> only, finds none, and both entries
  stay in the memory tier, one more than the bound.
\<close>

theorem eviction_skips_entries_without_expiry:
  "cache_sets [(0, ''a'', 1::int, None), (1, ''b'', 2, None)] (new_cache False 1)
     = Inr ((new_cache False 1)\<lparr>memory_cache := [(''a'', 1), (''b'', 2)]\<rparr>)"
  by (simp add: cache_set_def check_memory_cache_size_def new_cache_def Let_def)

text \<open>With expiries on both entries the same bound is kept, the earlier expiry going first.\<close>

lemma eviction_takes_earliest_expiry:
  "cache_sets [(0, ''a'', 1::int, Some 1000), (1, ''b'', 2, Some 60)] (new_cache False 1)
     = Inr ((new_cache False 1)\<lparr>memory_cache := [(''a'', 1)], expiry_times := [(''a'', 1000)]\<rparr>)"
  by (simp add: cache_set_def check_memory_cache_size_def new_cache_def Let_def py_del_def
      expiry_sort_key_def)

lemma map_of_without:
  "map_of (filter (\<lambda>p. fst p \<notin> K) xs) k = (if k \<in> K then None else map_of xs k)"
  by (induction xs) auto

lemma without_keys_empty: "without_keys {} c = c"
  by (simp add: without_keys_def)

lemma without_keys_insert:
  "without_keys K (without_keys {k} c) = without_keys (insert k K) c"
  by (simp add: without_keys_def conj_commute)

lemma keys_without:
  "fst ` set (filter (\<lambda>p. fst p \<notin> K) xs) = fst ` set xs - K"
  by force

lemma keys_without_one:
  "fst ` set (filter (\<lambda>p. fst p \<noteq> k) xs) = fst ` set xs - {k}"
  by force

lemma delete_as_filter: "AList.delete k d = filter (\<lambda>p. fst p \<notin> {k}) d"
  by (induction d) auto

lemma wf_without_keys: "wf_cache c \<Longrightarrow> wf_cache (without_keys K c)"
  unfolding wf_cache_def without_keys_def
  by (auto simp: distinct_map_filter keys_without simp del: set_filter)

lemma py_del_present:
  "k \<in> fst ` set d \<Longrightarrow> py_del k d = Inr (filter (\<lambda>p. fst p \<notin> {k}) d)"
  by (simp add: py_del_def map_of_eq_None_iff delete_as_filter)

lemma evict_keys_closed:
  "distinct ks \<Longrightarrow> set ks \<subseteq> fst ` set (expiry_times c) \<Longrightarrow>
   fst ` set (expiry_times c) \<subseteq> fst ` set (memory_cache c) \<Longrightarrow>
   evict_keys ks c = Inr (without_keys (set ks) c)"
proof (induction ks arbitrary: c)
  case Nil
  then show ?case by (simp add: without_keys_empty)
next
  case (Cons k ks)
  let ?c = "without_keys {k} c"
  have ke: "k \<in> fst ` set (expiry_times c)" using Cons.prems by auto
  then have km: "k \<in> fst ` set (memory_cache c)" using Cons.prems by auto
  have step: "evict_keys (k # ks) c = evict_keys ks ?c"
    by (simp add: py_del_present [OF ke] py_del_present [OF km] without_keys_def)
  have "evict_keys ks ?c = Inr (without_keys (set ks) ?c)"
  proof (rule Cons.IH)
    show "distinct ks" using Cons.prems by simp
    show "set ks \<subseteq> fst ` set (expiry_times ?c)"
      using Cons.prems by (auto simp: without_keys_def keys_without_one simp del: set_filter)
    show "fst ` set (expiry_times ?c) \<subseteq> fst ` set (memory_cache ?c)"
      using Cons.prems by (auto simp: without_keys_def keys_without_one simp del: set_filter)
  qed
  then show ?case unfolding step by (simp add: without_keys_insert)
qed

lemma check_memory_cache_size_closed:
  assumes "wf_cache c"
  shows "\<exists>K. check_memory_cache_size c = Inr (without_keys K c)"
proof (cases "int (length (memory_cache c)) > max_memory_items c")
  case False
  then have "check_memory_cache_size c = Inr (without_keys {} c)"
    by (simp add: check_memory_cache_size_def without_keys_empty)
  then show ?thesis by blast
next
  case True
  let ?ks = "take (nat (int (length (memory_cache c)) - max_memory_items c))
               (sort_key (expiry_sort_key (expiry_times c)) (map fst (expiry_times c)))"
  have "evict_keys ?ks c = Inr (without_keys (set ?ks) c)"
  proof (rule evict_keys_closed)
    show "distinct ?ks" using assms by (simp add: wf_cache_def)
    show "set ?ks \<subseteq> fst ` set (expiry_times c)"
      using set_take_subset [of _ "sort_key (expiry_sort_key (expiry_times c)) (map fst (expiry_times c))"]
      by fastforce
    show "fst ` set (expiry_times c) \<subseteq> fst ` set (memory_cache c)"
      using assms by (simp add: wf_cache_def)
  qed
  then show ?thesis using True by (auto simp: check_memory_cache_size_def Let_def)
qed


lemma length_without:
  assumes "distinct (map fst xs)" and "K \<subseteq> fst ` set xs" and "finite K"
  shows "length (filter (\<lambda>p. fst p \<notin> K) xs) = length xs - card K"
proof -
  have "length (filter (\<lambda>p. fst p \<notin> K) xs) = length (filter (\<lambda>k. k \<notin> K) (map fst xs))"
    by (simp add: filter_map o_def)
  also have "\<dots> = card ({k. k \<notin> K} \<inter> set (map fst xs))"
    by (rule distinct_length_filter [OF assms(1)])
  also have "{k. k \<notin> K} \<inter> set (map fst xs) = set (map fst xs) - K" by auto
  also have "card (set (map fst xs) - K) = card (set (map fst xs)) - card K"
    using assms(2,3) by (intro card_Diff_subset) auto
  also have "card (set (map fst xs)) = length xs"
    using distinct_card [OF assms(1)] by simp
  finally show ?thesis .
qed

text \<open>
  When every memory entry has an expiry (and the bound is not negative), an eviction that is
  due leaves exactly the bound: the shortfall of C2 is confined to entries without expiry.
\<close>

lemma eviction_restores_bound:
  assumes wf: "wf_cache c"
    and dm: "distinct (map fst (memory_cache c))"
    and every: "set (map fst (memory_cache c)) \<subseteq> set (map fst (expiry_times c))"
    and bound: "0 \<le> max_memory_items c"
    and over: "int (length (memory_cache c)) > max_memory_items c"
  shows "\<exists>c'. check_memory_cache_size c = Inr c' \<and>
              int (length (memory_cache c')) = max_memory_items c"
proof -
  let ?n = "nat (int (length (memory_cache c)) - max_memory_items c)"
  let ?S = "sort_key (expiry_sort_key (expiry_times c)) (map fst (expiry_times c))"
  let ?ks = "take ?n ?S"
  have de: "distinct (map fst (expiry_times c))" using wf by (simp add: wf_cache_def)
  have keys: "set (map fst (expiry_times c)) = set (map fst (memory_cache c))"
    using wf every by (auto simp: wf_cache_def)
  have len: "length (expiry_times c) = length (memory_cache c)"
    using distinct_card [OF de] distinct_card [OF dm] keys by simp
  have dk: "distinct ?ks" using de by simp
  have sub: "set ?ks \<subseteq> fst ` set (expiry_times c)"
    using set_take_subset [of ?n ?S] by fastforce
  have ev: "evict_keys ?ks c = Inr (without_keys (set ?ks) c)"
    by (rule evict_keys_closed [OF dk sub]) (use wf in \<open>simp add: wf_cache_def\<close>)
  have "card (set ?ks) = length ?ks" by (rule distinct_card [OF dk])
  also have "\<dots> = ?n" using len bound by simp
  finally have card: "card (set ?ks) = ?n" .
  have "length (memory_cache (without_keys (set ?ks) c)) = length (memory_cache c) - ?n"
    using length_without [OF dm, of "set ?ks"] sub keys card
    by (simp add: without_keys_def)
  then have "int (length (memory_cache (without_keys (set ?ks) c))) = max_memory_items c"
    using bound over by simp
  then show ?thesis
    using ev over by (simp add: check_memory_cache_size_def Let_def)
qed

lemma wf_set_entry:
  "wf_cache c \<Longrightarrow>
   wf_cache (c\<lparr>memory_cache := AList.update k v (memory_cache c),
              expiry_times := AList.update k e (expiry_times c)\<rparr>)"
  by (auto simp: wf_cache_def distinct_update dom_update)

lemma wf_set_value:
  "wf_cache c \<Longrightarrow> wf_cache (c\<lparr>memory_cache := AList.update k v (memory_cache c)\<rparr>)"
  by (auto simp: wf_cache_def dom_update)

lemma wf_disk_update: "wf_cache (c\<lparr>disk := f\<rparr>) = wf_cache c"
  by (simp add: wf_cache_def)

lemma disk_lookup_fresh:
  assumes "wf_cache c" and "disk c k = Some data"
    and "de_expiry data = None \<or> (\<exists>e. de_expiry data = Some e \<and> t \<le> e)"
  shows "fst (disk_lookup t True k d c) = de_value data"
proof -
  let ?c1 = "c\<lparr>memory_cache := AList.update k (de_value data) (memory_cache c)\<rparr>"
  let ?c2 = "case de_expiry data of None \<Rightarrow> ?c1
             | Some e \<Rightarrow> ?c1\<lparr>expiry_times := AList.update k e (expiry_times ?c1)\<rparr>"
  have "wf_cache ?c2"
    using wf_set_value [OF assms(1)] wf_set_entry [OF assms(1)]
    by (cases "de_expiry data") auto
  then obtain K where "check_memory_cache_size ?c2 = Inr (without_keys K ?c2)"
    using check_memory_cache_size_closed by blast
  then show ?thesis
    using assms(2,3) by (auto simp: disk_lookup_def Let_def)
qed

lemma disk_lookup_expired:
  "disk c k = Some data \<Longrightarrow> de_expiry data = Some e \<Longrightarrow> e < t \<Longrightarrow>
   fst (disk_lookup t io k d c) = d"
  by (simp add: disk_lookup_def)

lemma disk_lookup_failed: "fst (disk_lookup t False k d c) = d"
  by (simp add: disk_lookup_def)

lemma cache_get_sound:
  "fst (cache_get t io k d c) = d \<or>
   (map_of (memory_cache c) k = Some (fst (cache_get t io k d c)) \<and>
    \<not> (\<exists>e. map_of (expiry_times c) k = Some e \<and> e < t)) \<or>
   (\<exists>data. disk c k = Some data \<and> de_value data = fst (cache_get t io k d c) \<and>
           \<not> (\<exists>e. de_expiry data = Some e \<and> e < t))"
  by (auto simp: cache_get_def memory_lookup_def disk_lookup_def Let_def
      split: option.splits sum.splits if_splits)


lemma check_memory_cache_size_exact:
  assumes "wf_cache c"
  shows "check_memory_cache_size c = Inr (without_keys (set (keys_to_evict c)) c)"
proof (cases "int (length (memory_cache c)) > max_memory_items c")
  case False
  then show ?thesis
    by (simp add: check_memory_cache_size_def keys_to_evict_def without_keys_empty)
next
  case True
  let ?ks = "take (nat (int (length (memory_cache c)) - max_memory_items c))
               (sort_key (expiry_sort_key (expiry_times c)) (map fst (expiry_times c)))"
  have "evict_keys ?ks c = Inr (without_keys (set ?ks) c)"
  proof (rule evict_keys_closed)
    show "distinct ?ks" using assms by (simp add: wf_cache_def)
    show "set ?ks \<subseteq> fst ` set (expiry_times c)"
      using set_take_subset [of _ "sort_key (expiry_sort_key (expiry_times c)) (map fst (expiry_times c))"]
      by fastforce
    show "fst ` set (expiry_times c) \<subseteq> fst ` set (memory_cache c)"
      using assms by (simp add: wf_cache_def)
  qed
  then show ?thesis
    using True by (simp add: check_memory_cache_size_def keys_to_evict_def Let_def)
qed

lemma cache_set_ttl_exact:
  assumes wf: "wf_cache c" and now: "0 \<le> now"
  shows "\<exists>c1. cache_set now w_ok k v (Some 60) c = Inr (use_disk_cache c \<longrightarrow> w_ok, c1) \<and>
           wf_cache c1 \<and> use_disk_cache c1 = use_disk_cache c \<and>
           map_of (memory_cache c1) k =
             (if k \<in> set (keys_to_evict
                   (c\<lparr>memory_cache := AList.update k v (memory_cache c),
                      expiry_times := AList.update k (now + 60) (expiry_times c)\<rparr>))
              then None else Some v) \<and>
           map_of (expiry_times c1) k =
             (if k \<in> set (keys_to_evict
                   (c\<lparr>memory_cache := AList.update k v (memory_cache c),
                      expiry_times := AList.update k (now + 60) (expiry_times c)\<rparr>))
              then None else Some (now + 60)) \<and>
           (use_disk_cache c \<and> w_ok \<longrightarrow>
              disk c1 k = Some \<lparr>de_value = v, de_created_at = now, de_expiry = Some (now + 60)\<rparr>)"
proof -
  let ?c2 = "c\<lparr>memory_cache := AList.update k v (memory_cache c),
               expiry_times := AList.update k (now + 60) (expiry_times c)\<rparr>"
  let ?K = "set (keys_to_evict ?c2)"
  have wf2: "wf_cache ?c2" by (rule wf_set_entry [OF wf])
  have K: "check_memory_cache_size ?c2 = Inr (without_keys ?K ?c2)"
    by (rule check_memory_cache_size_exact [OF wf2])
  have wf3: "wf_cache (without_keys ?K ?c2)" by (rule wf_without_keys [OF wf2])
  have nz: "now + 60 \<noteq> 0" using now by simp
  have look:
    "map_of (memory_cache (without_keys ?K ?c2)) k = (if k \<in> ?K then None else Some v)"
    "map_of (expiry_times (without_keys ?K ?c2)) k = (if k \<in> ?K then None else Some (now + 60))"
    by (simp_all add: without_keys_def map_of_without update_conv)
  have ud: "use_disk_cache (without_keys ?K ?c2) = use_disk_cache c"
    by (simp add: without_keys_def)
  show ?thesis
    using K wf3 nz look ud
    by (auto simp: cache_set_def Let_def wf_disk_update)
qed

lemma cache_get_within_ttl:
  assumes wf: "wf_cache c1"
    and entry: "map_of (memory_cache c1) k = None \<and> map_of (expiry_times c1) k = None \<or>
                map_of (memory_cache c1) k = Some v \<and> map_of (expiry_times c1) k = Some x"
    and t: "t \<le> x"
    and kept: "map_of (memory_cache c1) k \<noteq> None \<or>
               use_disk_cache c1 \<and> r_ok \<and>
               disk c1 k = Some \<lparr>de_value = v, de_created_at = n, de_expiry = Some x\<rparr>"
  shows "fst (cache_get t r_ok k d c1) = v"
proof (cases "map_of (memory_cache c1) k")
  case (Some a)
  then show ?thesis using entry t by (auto simp: cache_get_def memory_lookup_def)
next
  case None
  then have dk: "use_disk_cache c1" "r_ok"
    "disk c1 k = Some \<lparr>de_value = v, de_created_at = n, de_expiry = Some x\<rparr>"
    using kept by auto
  have "fst (disk_lookup t True k d c1) = de_value \<lparr>de_value = v, de_created_at = n, de_expiry = Some x\<rparr>"
    by (rule disk_lookup_fresh [OF wf dk(3)]) (simp add: t)
  then show ?thesis using None dk by (simp add: cache_get_def memory_lookup_def)
qed

lemma cache_get_after_ttl:
  assumes entry: "map_of (memory_cache c1) k = None \<and> map_of (expiry_times c1) k = None \<or>
                  map_of (memory_cache c1) k = Some v \<and> map_of (expiry_times c1) k = Some x"
    and t: "x < t"
    and dsk: "use_disk_cache c1 \<longrightarrow>
               disk c1 k = Some \<lparr>de_value = v, de_created_at = n, de_expiry = Some x\<rparr>"
  shows "fst (cache_get t r_ok k d c1) = d"
  using assms
  by (auto simp: cache_get_def memory_lookup_def disk_lookup_def split: option.splits)


lemma wf_new_cache: "wf_cache (new_cache use_disk max_items)"
  by (simp add: wf_cache_def new_cache_def)

lemma wf_cache_set:
  assumes "wf_cache c"
  shows "\<exists>ok c1. cache_set now w_ok k v ttl c = Inr (ok, c1) \<and> wf_cache c1"
proof -
  let ?c1 = "c\<lparr>memory_cache := AList.update k v (memory_cache c)\<rparr>"
  have all: "\<And>c2. wf_cache c2 \<Longrightarrow> \<exists>K. check_memory_cache_size c2 = Inr (without_keys K c2) \<and>
                wf_cache (without_keys K c2)"
    using check_memory_cache_size_closed wf_without_keys by blast
  show ?thesis
  proof (cases "\<exists>d. ttl = Some d \<and> now + real_of_int d \<noteq> 0")
    case True
    then obtain d where d: "ttl = Some d" "now + real_of_int d \<noteq> 0" by blast
    from all [OF wf_set_entry [OF assms, where k=k and v=v and e="now + real_of_int d"]]
    show ?thesis using d by (auto simp: cache_set_def Let_def wf_disk_update)
  next
    case False
    from all [OF wf_set_value [OF assms, where k=k and v=v]]
    show ?thesis using False by (cases ttl) (auto simp: cache_set_def Let_def wf_disk_update)
  qed
qed

lemma wf_cache_get: 
  assumes "wf_cache c"
  shows "wf_cache (snd (cache_get t io k d c))"
proof -
  have del: "wf_cache (c\<lparr>memory_cache := AList.delete k (memory_cache c),
                          expiry_times := AList.delete k (expiry_times c)\<rparr>)"
    using wf_without_keys [OF assms, of "{k}"] by (simp add: without_keys_def delete_as_filter)
  have ml: "wf_cache (snd (memory_lookup t k c))"
    using assms del by (auto simp: memory_lookup_def split: option.splits)
  have dl: "\<And>c'. wf_cache c' \<Longrightarrow> wf_cache (snd (disk_lookup t io k d c'))"
  proof -
    fix c' :: "'a Cache" assume w: "wf_cache c'"
    show "wf_cache (snd (disk_lookup t io k d c'))"
    proof (cases "disk c' k")
      case None
      then show ?thesis using w by (simp add: disk_lookup_def)
    next
      case (Some data)
      let ?c1 = "c'\<lparr>memory_cache := AList.update k (de_value data) (memory_cache c')\<rparr>"
      let ?c2 = "case de_expiry data of None \<Rightarrow> ?c1
                 | Some e \<Rightarrow> ?c1\<lparr>expiry_times := AList.update k e (expiry_times ?c1)\<rparr>"
      have w2: "wf_cache ?c2"
        using wf_set_value [OF w] wf_set_entry [OF w] by (cases "de_expiry data") auto
      then obtain K where K: "check_memory_cache_size ?c2 = Inr (without_keys K ?c2)"
        using check_memory_cache_size_closed by blast
      have "wf_cache (without_keys K ?c2)" by (rule wf_without_keys [OF w2])
      then show ?thesis using Some w K
        by (auto simp: disk_lookup_def Let_def wf_disk_update)
    qed
  qed
  show ?thesis
    using ml dl [of "snd (memory_lookup t k c)"]
    by (auto simp: cache_get_def split: prod.splits option.splits)
qed

text \<open>
  C7, as the code has it. On a cache that satisfies the invariant and with a clock that is not
  negative, \<open>set(k, v, 60)\<close> returns without an exception. A \<open>get(k)\<close> at any time up to 60
  seconds later returns \<open>v\<close> if \<open>k\<close> is not among the keys which the eviction removes from
  the cache as it is once the entry is stored (in particular if the memory tier is then within
  its bound), or if the disk tier is on and the write and the read of the file succeed. If
  \<open>k\<close> is among those keys and the disk tier is off, the \<open>get(k)\<close> returns the default. If
  the \<open>set\<close> reported success, a \<open>get(k)\<close> more than 60 seconds later returns the default.
  And in any state whatever, \<open>get\<close> returns the default, or a memory entry whose recorded
  expiry is not before the time of the call, or the value of a cache file whose recorded
  expiry is not before it.
\<close>

theorem cache_ttl_round_trip:
  assumes wf: "wf_cache c" and now: "0 \<le> now"
  shows "\<exists>ok c1. cache_set now w_ok k v (Some 60) c = Inr (ok, c1) \<and>
           (t \<le> now + 60 \<and>
            (k \<notin> set (keys_to_evict
                   (c\<lparr>memory_cache := AList.update k v (memory_cache c),
                      expiry_times := AList.update k (now + 60) (expiry_times c)\<rparr>)) \<or>
             use_disk_cache c \<and> w_ok \<and> r_ok)
              \<longrightarrow> fst (cache_get t r_ok k d c1) = v) \<and>
           (t \<le> now + 60 \<and> int (length (AList.update k v (memory_cache c))) \<le> max_memory_items c
              \<longrightarrow> fst (cache_get t r_ok k d c1) = v) \<and>
           (k \<in> set (keys_to_evict
                   (c\<lparr>memory_cache := AList.update k v (memory_cache c),
                      expiry_times := AList.update k (now + 60) (expiry_times c)\<rparr>)) \<and>
            \<not> use_disk_cache c
              \<longrightarrow> fst (cache_get t r_ok k d c1) = d) \<and>
           (now + 60 < t \<and> ok \<longrightarrow> fst (cache_get t r_ok k d c1) = d) \<and>
           (fst (cache_get t r_ok k d c0) = d \<or>
            (map_of (memory_cache c0) k = Some (fst (cache_get t r_ok k d c0)) \<and>
             \<not> (\<exists>e. map_of (expiry_times c0) k = Some e \<and> e < t)) \<or>
            (\<exists>data. disk c0 k = Some data \<and> de_value data = fst (cache_get t r_ok k d c0) \<and>
                    \<not> (\<exists>e. de_expiry data = Some e \<and> e < t)))"
proof -
  let ?c2 = "c\<lparr>memory_cache := AList.update k v (memory_cache c),
               expiry_times := AList.update k (now + 60) (expiry_times c)\<rparr>"
  obtain c1 where s: "cache_set now w_ok k v (Some 60) c = Inr (use_disk_cache c \<longrightarrow> w_ok, c1)"
    and w1: "wf_cache c1" and ud: "use_disk_cache c1 = use_disk_cache c"
    and mem: "map_of (memory_cache c1) k
                = (if k \<in> set (keys_to_evict ?c2) then None else Some v)"
    and ex: "map_of (expiry_times c1) k
                = (if k \<in> set (keys_to_evict ?c2) then None else Some (now + 60))"
    and dsk: "use_disk_cache c \<and> w_ok \<longrightarrow>
              disk c1 k = Some \<lparr>de_value = v, de_created_at = now, de_expiry = Some (now + 60)\<rparr>"
    using cache_set_ttl_exact [OF wf now] by blast
  have entry: "map_of (memory_cache c1) k = None \<and> map_of (expiry_times c1) k = None \<or>
            map_of (memory_cache c1) k = Some v \<and> map_of (expiry_times c1) k = Some (now + 60)"
    using mem ex by auto
  have a: "t \<le> now + 60 \<and> (k \<notin> set (keys_to_evict ?c2) \<or> use_disk_cache c \<and> w_ok \<and> r_ok)
              \<longrightarrow> fst (cache_get t r_ok k d c1) = v"
    using cache_get_within_ttl [OF w1 entry, of t r_ok now d] ud dsk mem by auto
  have within: "int (length (AList.update k v (memory_cache c))) \<le> max_memory_items c
                  \<Longrightarrow> keys_to_evict ?c2 = []"
    by (simp add: keys_to_evict_def)
  have a': "t \<le> now + 60 \<and> int (length (AList.update k v (memory_cache c))) \<le> max_memory_items c
              \<longrightarrow> fst (cache_get t r_ok k d c1) = v"
    using a within by auto
  have a'': "k \<in> set (keys_to_evict ?c2) \<and> \<not> use_disk_cache c
              \<longrightarrow> fst (cache_get t r_ok k d c1) = d"
    using mem ud by (auto simp: cache_get_def memory_lookup_def)
  have b: "now + 60 < t \<and> (use_disk_cache c \<longrightarrow> w_ok) \<longrightarrow> fst (cache_get t r_ok k d c1) = d"
    using cache_get_after_ttl [OF entry, of t now r_ok d] ud dsk by blast
  show ?thesis
    using s a a' a'' b cache_get_sound [of t r_ok k d c0] by blast
qed

theorem cache_ttl_round_trip_witness:
  "wf_cache (new_cache False 10 :: int Cache) \<and> (0::real) \<le> 0 \<and>
   ''k'' \<notin> set (keys_to_evict ((new_cache False 10 :: int Cache)
       \<lparr>memory_cache := AList.update ''k'' 1 (memory_cache (new_cache False 10)),
        expiry_times := AList.update ''k'' (0 + 60) (expiry_times (new_cache False 10 :: int Cache))\<rparr>)) \<and>
   int (length (AList.update ''k'' (1::int) (memory_cache (new_cache False 10))))
     \<le> max_memory_items (new_cache False 10 :: int Cache) \<and>
   cache_set 0 True ''k'' (1::int) (Some 60) (new_cache False 10)
     = Inr (True, (new_cache False 10)
         \<lparr>memory_cache := [(''k'', 1)], expiry_times := [(''k'', 60)]\<rparr>) \<and>
   fst (cache_get 30 True ''k'' 0 ((new_cache False 10)
         \<lparr>memory_cache := [(''k'', 1::int)], expiry_times := [(''k'', 60)]\<rparr>)) = 1 \<and>
   fst (cache_get 61 True ''k'' 0 ((new_cache False 10)
         \<lparr>memory_cache := [(''k'', 1::int)], expiry_times := [(''k'', 60)]\<rparr>)) = 0"
  using cache_ttl_round_trip [where c = "new_cache False 10 :: int Cache" and now = 0
      and w_ok = True and k = "''k''" and v = 1 and t = 30 and r_ok = True and d = 0
      and ?c0.0 = "new_cache False 10"]
    cache_ttl_round_trip [where c = "new_cache False 10 :: int Cache" and now = 0
      and w_ok = True and k = "''k''" and v = 1 and t = 61 and r_ok = True and d = 0
      and ?c0.0 = "new_cache False 10"]
  by (simp add: wf_cache_def new_cache_def cache_set_def check_memory_cache_size_def
      keys_to_evict_def cache_get_def memory_lookup_def disk_lookup_def Let_def)

text \<open>The second \<open>set\<close> of the counterexample below has its own key among the keys to evict.\<close>

lemma own_key_evicted:
  "''b'' \<in> set (keys_to_evict ((new_cache False 1 :: int Cache)
       \<lparr>memory_cache := AList.update ''b'' 2 [(''a'', 1)],
        expiry_times := AList.update ''b'' (1 + 60) [(''a'', 1000)]\<rparr>))"
  by (simp add: keys_to_evict_def new_cache_def expiry_sort_key_def)

text \<open>
  C7 as stated fails where the eviction takes the new entry: bound 1, disk tier off, \<open>a\<close>
  cached until time 1000; \<open>set(b, 2, 60)\<close> at time 1 evicts \<open>b\<close> itself, the key with the
  earliest expiry, and the \<open>get(b)\<close> that follows at once returns the default.
\<close>

theorem cache_round_trip_counterexample:
  "cache_set 0 True ''a'' (1::int) (Some 1000) (new_cache False 1)
     = Inr (True, (new_cache False 1)
         \<lparr>memory_cache := [(''a'', 1)], expiry_times := [(''a'', 1000)]\<rparr>) \<and>
   cache_set 1 True ''b'' (2::int) (Some 60) ((new_cache False 1)
         \<lparr>memory_cache := [(''a'', 1)], expiry_times := [(''a'', 1000)]\<rparr>)
     = Inr (True, (new_cache False 1)
         \<lparr>memory_cache := [(''a'', 1)], expiry_times := [(''a'', 1000)]\<rparr>) \<and>
   fst (cache_get 1 True ''b'' 0 ((new_cache False 1)
         \<lparr>memory_cache := [(''a'', 1::int)], expiry_times := [(''a'', 1000)]\<rparr>)) = 0"
  by (simp add: new_cache_def cache_set_def check_memory_cache_size_def py_del_def
      expiry_sort_key_def cache_get_def memory_lookup_def Let_def)

section \<open>Properties of the fallback vector index\<close>

lemma update_fresh: "k \<notin> fst ` set al \<Longrightarrow> AList.update k v al = al @ [(k, v)]"
  by (induction al) auto

lemma fold_update_distinct:
  "distinct (map f rows) \<Longrightarrow> f ` set rows \<inter> fst ` set acc = {} \<Longrightarrow>
   fold (\<lambda>r d. AList.update (f r) (g r) d) rows acc = acc @ map (\<lambda>r. (f r, g r)) rows"
proof (induction rows arbitrary: acc)
  case Nil
  then show ?case by simp
next
  case (Cons r rows)
  have fresh: "f r \<notin> fst ` set acc" using Cons.prems by auto
  have "fold (\<lambda>r d. AList.update (f r) (g r) d) rows (acc @ [(f r, g r)])
          = (acc @ [(f r, g r)]) @ map (\<lambda>r. (f r, g r)) rows"
    by (rule Cons.IH) (use Cons.prems in auto)
  then show ?case by (simp add: update_fresh [OF fresh])
qed

lemma get_all_vectors_rows:
  assumes "distinct (map vr_id (vectors_table cl))"
  shows "fst (get_all_vectors True namespace cl)
           = map (\<lambda>r. (vr_id r, vr_values r, vr_metadata r))
               (filter (\<lambda>r. namespace = [] \<or> vr_namespace r = namespace) (vectors_table cl))"
proof -
  have d: "distinct (map vr_id (filter (\<lambda>r. vr_namespace r = namespace) (vectors_table cl)))"
    using assms by (simp add: distinct_map_filter)
  show ?thesis
    using fold_update_distinct [OF assms, of "[]" "\<lambda>r. (vr_values r, vr_metadata r)"]
      fold_update_distinct [OF d, of "[]" "\<lambda>r. (vr_values r, vr_metadata r)"]
    by (cases "namespace = []") (simp_all add: get_all_vectors_def Let_def)
qed

lemma insort_key_map:
  "insort_key f (g x) (map g xs) = map g (insort_key (\<lambda>y. f (g y)) x xs)"
  by (induction xs) auto

lemma sort_key_map: "sort_key f (map g xs) = map g (sort_key (\<lambda>y. f (g y)) xs)"
  by (induction xs) (auto simp: insort_key_map)

lemma similarities_rows:
  "similarities metric vec flt
      (map (\<lambda>r. (vr_id r, vr_values r, vr_metadata r))
         (filter (\<lambda>r. namespace = [] \<or> vr_namespace r = namespace) rows))
   = map (\<lambda>r. (vr_id r, calculate_similarity vec (vr_values r) metric, vr_metadata r))
       (filter (eligible namespace flt) rows)"
  by (induction rows)
    (auto simp: similarities_def eligible_def match_filter_def split: option.splits)

lemma query_closed:
  assumes "distinct (map vr_id (vectors_table cl))"
  shows "fst (query metric True vec top_k namespace include_metadata flt cl)
           = py_prefix top_k (sort_key (\<lambda>m. - m_score m)
               (map (scored metric vec include_metadata)
                  (filter (eligible namespace flt) (vectors_table cl))))"
proof -
  let ?rows = "filter (\<lambda>r. namespace = [] \<or> vr_namespace r = namespace) (vectors_table cl)"
  let ?all = "map (\<lambda>r. (vr_id r, vr_values r, vr_metadata r)) ?rows"
  let ?to = "\<lambda>(ident, score, metadata).
                        \<lparr>m_id = ident, m_score = score,
                         m_metadata = (if include_metadata then Some metadata else None)\<rparr>"
  obtain cl' where g: "get_all_vectors True namespace cl = (?all, cl')"
    using get_all_vectors_rows [OF assms, of namespace]
    by (cases "get_all_vectors True namespace cl") auto
  have pm: "\<And>n xs. map ?to (py_prefix n xs) = py_prefix n (map ?to xs)"
    by (simp add: py_prefix_def take_map)
  have key: "(\<lambda>(ident, score, metadata). - score) = (\<lambda>y. - m_score (?to y))"
    by (auto simp: fun_eq_iff)
  have sm: "\<And>xs. map ?to (sort_key (\<lambda>(ident, score, metadata). - score) xs)
              = sort_key (\<lambda>m. - m_score m) (map ?to xs)"
    unfolding key by (simp add: sort_key_map)
  have sc: "map ?to (map (\<lambda>r. (vr_id r, calculate_similarity vec (vr_values r) metric, vr_metadata r))
               (filter (eligible namespace flt) (vectors_table cl)))
            = map (scored metric vec include_metadata) (filter (eligible namespace flt) (vectors_table cl))"
    by (simp add: scored_def)
  show ?thesis
  proof (cases "?all = []")
    case True
    then have "filter (eligible namespace flt) (vectors_table cl) = []"
      by (auto simp: filter_empty_conv eligible_def)
    then show ?thesis using True g by (simp add: query_def py_prefix_def)
  next
    case False
    then have "fst (query metric True vec top_k namespace include_metadata flt cl)
                 = map ?to (py_prefix top_k (sort_key (\<lambda>(ident, score, metadata). - score)
                     (similarities metric vec flt ?all)))"
      using g by (simp add: query_def Let_def)
    also have "\<dots> = py_prefix top_k (sort_key (\<lambda>m. - m_score m)
                     (map ?to (similarities metric vec flt ?all)))"
      by (simp only: pm sm)
    also have "\<dots> = py_prefix top_k (sort_key (\<lambda>m. - m_score m)
               (map (scored metric vec include_metadata)
                  (filter (eligible namespace flt) (vectors_table cl))))"
      by (simp only: similarities_rows sc)
    finally show ?thesis .
  qed
qed


lemma top_of_stable_sort:
  fixes cands :: "'m match list" and n :: nat
  defines "ms \<equiv> take n (sort_key (\<lambda>m. - m_score m) cands)"
  shows "set ms \<subseteq> set cands"
    and "length ms = min n (length cands)"
    and "sorted_wrt (\<lambda>a b. m_score b \<le> m_score a) ms"
    and "\<forall>c \<in> set cands - set ms. \<forall>m \<in> set ms. m_score c \<le> m_score m"
    and "prefix (filter (\<lambda>m. m_score m = s) ms) (filter (\<lambda>m. m_score m = s) cands)"
proof -
  let ?S = "sort_key (\<lambda>m. - m_score m) cands"
  have srt: "sorted_wrt (\<lambda>a b. m_score b \<le> m_score a) ?S"
    using sorted_sort_key [of "\<lambda>m. - m_score m" cands] by (simp add: sorted_map)
  show "set ms \<subseteq> set cands"
    using set_take_subset [of n ?S] by (simp add: ms_def)
  show "length ms = min n (length cands)"
    by (simp add: ms_def min.commute)
  show "sorted_wrt (\<lambda>a b. m_score b \<le> m_score a) ms"
    unfolding ms_def by (rule sorted_wrt_take [OF srt])
  have "sorted_wrt (\<lambda>a b. m_score b \<le> m_score a) (take n ?S @ drop n ?S)"
    using srt by simp
  then have cross: "\<forall>m \<in> set (take n ?S). \<forall>c \<in> set (drop n ?S). m_score c \<le> m_score m"
    unfolding sorted_wrt_append by blast
  have "set cands = set (take n ?S) \<union> set (drop n ?S)"
    using set_append [of "take n ?S" "drop n ?S"] by simp
  then show "\<forall>c \<in> set cands - set ms. \<forall>m \<in> set ms. m_score c \<le> m_score m"
    using cross by (auto simp: ms_def)
  have "prefix (filter (\<lambda>m. - m_score m = - s) ms) (filter (\<lambda>m. - m_score m = - s) ?S)"
    unfolding ms_def by (rule filter_mono_prefix [OF take_is_prefix])
  then show "prefix (filter (\<lambda>m. m_score m = s) ms) (filter (\<lambda>m. m_score m = s) cands)"
    using sort_key_stable [of "\<lambda>m. - m_score m" "- s" cands] by simp
qed

text \<open>
  C4, as the code has it. When the table is read (ids are unique, being the primary key) and
  \<open>top_k\<close> is not negative, the matches of \<open>query\<close> are scored rows that pass the
  metadata filter by exact equality on every filter key and that lie in the given namespace
  if it is non-empty, or in any namespace if it is empty. There are \<open>top_k\<close> of them, or all
  candidates if fewer; they are in descending order of score; no candidate left out scores
  above a match; and among equal scores the matches are an initial part of the candidates in
  the order of insertion.
\<close>

theorem query_top_k:
  assumes "distinct (map vr_id (vectors_table cl))" and "0 \<le> top_k"
  shows
    "let ms = fst (query metric True vec top_k namespace include_metadata flt cl);
         cands = map (scored metric vec include_metadata)
                   (filter (eligible namespace flt) (vectors_table cl))
     in set ms \<subseteq> set cands \<and>
        length ms = min (nat top_k) (length cands) \<and>
        sorted_wrt (\<lambda>a b. m_score b \<le> m_score a) ms \<and>
        (\<forall>c \<in> set cands - set ms. \<forall>m \<in> set ms. m_score c \<le> m_score m) \<and>
        (\<forall>s. prefix (filter (\<lambda>m. m_score m = s) ms) (filter (\<lambda>m. m_score m = s) cands))"
  unfolding Let_def query_closed [OF assms(1)]
  using assms(2) top_of_stable_sort [where n = "nat top_k" and cands =
      "map (scored metric vec include_metadata) (filter (eligible namespace flt) (vectors_table cl))"]
  by (simp add: py_prefix_def)

lemma save_vector_distinct:
  "distinct (map vr_id (vectors_table cl)) \<Longrightarrow>
   distinct (map vr_id (vectors_table (snd (save_vector io ident vec md ns cl))))"
  by (auto simp: save_vector_def distinct_map_filter)

lemma upsert_distinct:
  "distinct (map vr_id (vectors_table cl)) \<Longrightarrow>
   distinct (map vr_id (vectors_table (snd (upsert io vs ns cl))))"
proof (induction vs arbitrary: cl)
  case Nil
  then show ?case by simp
next
  case (Cons v vs)
  obtain ident vals md where v: "v = (ident, vals, md)" by (cases v) auto
  show ?case
    using Cons.IH [OF Cons.prems] Cons.IH [OF save_vector_distinct [OF Cons.prems]]
    by (auto simp: v split: prod.splits) (metis snd_conv)+
qed

text \<open>
  The example of the claim: A, B, C upserted in this order, cosine metric, query \<open>[1, 0]\<close>
  with \<open>top_k = 2\<close> gives A then C, both with score 1, and B scores 0.
\<close>

theorem query_top_k_witness:
  "distinct (map vr_id (vectors_table (snd (upsert True
       [(''A'', [1, 0], Map.empty), (''B'', [0, 1], Map.empty), (''C'', [1, 0], Map.empty)] ''''
       (new_pinecone_fallback :: unit LocalPineconeFallback))))) \<and>
   (0::int) \<le> 2 \<and>
   fst (query ''cosine'' True [1, 0] 2 '''' False None (snd (upsert True
       [(''A'', [1, 0], Map.empty), (''B'', [0, 1], Map.empty), (''C'', [1, 0], Map.empty)] ''''
       (new_pinecone_fallback :: unit LocalPineconeFallback))))
     = [\<lparr>m_id = ''A'', m_score = 1, m_metadata = None\<rparr>,
        \<lparr>m_id = ''C'', m_score = 1, m_metadata = None\<rparr>] \<and>
   calculate_similarity [1, 0] [0, 1] ''cosine'' = 0"
  using query_top_k [where cl = "snd (upsert True
       [(''A'', [1, 0], Map.empty), (''B'', [0, 1], Map.empty), (''C'', [1, 0], Map.empty)] ''''
       (new_pinecone_fallback :: unit LocalPineconeFallback))"
     and top_k = 2 and metric = "''cosine''" and vec = "[1, 0]" and namespace = "''''"
     and include_metadata = False and flt = None]
  by (simp add: save_vector_def new_pinecone_fallback_def query_def get_all_vectors_def
      similarities_def calculate_similarity_def cosine_similarity_def np_norm_def np_dot_def
      py_prefix_def Let_def)

text \<open>
  C4 as stated fails for the empty namespace: a vector stored in namespace \<open>ns1\<close> is scored
  and returned by a query whose namespace is the empty string.
\<close>

theorem query_empty_namespace_counterexample:
  "map vr_namespace (vectors_table (snd (upsert True [(''X'', [1, 0], Map.empty)] ''ns1''
       (new_pinecone_fallback :: unit LocalPineconeFallback)))) = [''ns1''] \<and>
   fst (query ''cosine'' True [1, 0] 2 '''' False None
       (snd (upsert True [(''X'', [1, 0], Map.empty)] ''ns1''
          (new_pinecone_fallback :: unit LocalPineconeFallback))))
     = [\<lparr>m_id = ''X'', m_score = 1, m_metadata = None\<rparr>]"
  by (simp add: save_vector_def new_pinecone_fallback_def query_def get_all_vectors_def
      similarities_def calculate_similarity_def cosine_similarity_def np_norm_def np_dot_def
      py_prefix_def Let_def)

section \<open>Properties of the fallback structured store\<close>

lemma videos_schema_id:
  "table_schema ''videos'' = Some schema \<Longrightarrow> map_of schema ''id'' = Some (''TEXT'', Null)"
  by (auto simp: table_schema_def)

lemma id_clause:
  assumes "table_schema ''videos'' = Some schema"
    and "affinity eng ''TEXT'' (Text ''1'') = Text ''1''"
  shows "row_matches eng schema r [EqClause ''id''] [Text ''1'']
           = (row_id ''videos'' r = Some (Text ''1''))"
    and "row_matches eng schema r [EqClause ''id'', EqClause ''id''] [Text ''1'', Text ''1'']
           = (row_id ''videos'' r = Some (Text ''1''))"
  using assms videos_schema_id [OF assms(1)]
  by (auto simp: sql_eq_def row_id_def split: option.splits)

lemma no_such_id:
  "Some (Text ''1'') \<notin> set (map (row_id ''videos'') rows) \<Longrightarrow>
   filter (\<lambda>r. row_id ''videos'' r = Some (Text ''1'')) rows = [] \<and>
   filter (\<lambda>r. row_id ''videos'' r \<noteq> Some (Text ''1'')) rows = rows"
  by (induction rows) auto

lemma insert_video:
  assumes aff: "affinity eng ''TEXT'' (Text ''1'') = Text ''1''"
      "affinity eng ''TEXT'' (Text ''x'') = Text ''x''"
    and fresh: "Some (Text ''1'') \<notin> set (map (row_id ''videos'') (table_rows st ''videos''))"
  shows "sb_insert eng True ''videos'' [(''id'', Text ''1''), (''title'', Text ''x'')] st
         = ([[(''id'', Text ''1''), (''title'', Text ''x'')]],
            st\<lparr>builders := (builders st)(''videos'' \<mapsto> builder_of ''videos'' st),
               table_rows := (table_rows st)(''videos'' := table_rows st ''videos'' @
                 [[Text ''1'', Null, Null, Text ''x'', Null, Null, Null, Null, Null, Null, Null,
                   Null, Null, Null, Null, Null, Text ''processed'']])\<rparr>)"
  using fresh
  by (simp add: sb_insert_def with_builder_def run_insert_def table_schema_def is_column_def
      cell_def row_id_def Let_def aff)

lemma builder_of_with_builder [simp]:
  "builder_of t (with_builder t f s) = f (builder_of t s)"
  by (simp add: builder_of_def with_builder_def)

lemma table_rows_with_builder [simp]: "table_rows (with_builder t f s) = table_rows s"
  by (simp add: with_builder_def)

lemma with_builder_twice [simp]:
  "with_builder t f (with_builder t g s) = with_builder t (\<lambda>b. f (g b)) s"
  by (simp add: with_builder_def builder_of_def)

lemma select_by_id:
  assumes aff: "affinity eng ''TEXT'' (Text ''1'') = Text ''1''"
    and wc: "where_clauses (builder_of ''videos'' s) = cs"
      "where_params (builder_of ''videos'' s) = ps"
    and rest: "order_by_clause (builder_of ''videos'' s) = None"
      "limit_clause (builder_of ''videos'' s) = None"
      "offset_clause (builder_of ''videos'' s) = None"
    and cs: "cs = [] \<and> ps = [] \<or> cs = [EqClause ''id''] \<and> ps = [Text ''1'']"
    and hits: "filter (\<lambda>r. row_id ''videos'' r = Some (Text ''1'')) (table_rows s ''videos'') = found"
  shows "sb_execute eng True ''videos''
           (sb_eq ''videos'' ''id'' (Text ''1'') (sb_select ''videos'' [''*''] s))
         = (map (row_dict eng
                  [''id'', ''filename'', ''file_path'', ''title'', ''description'', ''tags'',
                   ''duration'', ''size_bytes'', ''format'', ''width'', ''height'',
                   ''thumbnail_path'', ''created_at'', ''updated_at'', ''user_id'', ''metadata'',
                   ''status'']) found,
            with_builder ''videos'' (\<lambda>b. reset_query) s)"
proof -
  obtain schema where sch: "table_schema ''videos'' = Some schema"
    by (simp add: table_schema_def)
  have cols: "map fst schema = [''id'', ''filename'', ''file_path'', ''title'', ''description'', ''tags'',
                   ''duration'', ''size_bytes'', ''format'', ''width'', ''height'',
                   ''thumbnail_path'', ''created_at'', ''updated_at'', ''user_id'', ''metadata'',
                   ''status'']"
    using sch by (auto simp: table_schema_def)
  have isc: "is_column schema ''id''" by (simp add: is_column_def cols)
  have proj: "project schema [''*''] = (\<lambda>r. r)" by (simp add: project_def fun_eq_iff)
  show ?thesis
    using cs hits
    by (auto simp: sb_execute_def sb_eq_def sb_select_def wc rest sch cols isc proj run_select_def
        id_clause [OF sch aff] order_rows_def limit_rows_def Let_def o_def
        simp del: row_matches.simps)
qed

lemma delete_by_id:
  assumes aff: "affinity eng ''TEXT'' (Text ''1'') = Text ''1''"
    and br: "builder_of ''videos'' s = reset_query"
  shows "sb_delete eng True ''videos'' (sb_eq ''videos'' ''id'' (Text ''1'') s)
         = ([], (with_builder ''videos''
                   (\<lambda>b. reset_query\<lparr>where_clauses := [EqClause ''id''],
                                     where_params := [Text ''1'']\<rparr>) s)
                \<lparr>table_rows := (table_rows s)(''videos'' :=
                   filter (\<lambda>r. row_id ''videos'' r \<noteq> Some (Text ''1''))
                     (table_rows s ''videos''))\<rparr>)"
proof -
  obtain schema where sch: "table_schema ''videos'' = Some schema"
    by (simp add: table_schema_def)
  have isc: "is_column schema ''id''" using sch by (auto simp: is_column_def table_schema_def)
  have wb: "with_builder ''videos''
              (\<lambda>b. b\<lparr>where_clauses := where_clauses b @ [EqClause ''id''],
                       where_params := where_params b @ [Text ''1'']\<rparr>) s
            = with_builder ''videos''
                (\<lambda>b. reset_query\<lparr>where_clauses := [EqClause ''id''],
                                  where_params := [Text ''1'']\<rparr>) s"
    by (simp add: with_builder_def br reset_query_def)
  show ?thesis
    by (simp add: sb_delete_def sb_eq_def wb sch isc run_delete_def id_clause [OF sch aff]
        reset_query_def Let_def del: row_matches.simps)
qed

text \<open>
  C8, as the code has it. Take a store whose table \<open>videos\<close> has no row with id \<open>1\<close> and
  whose builder for \<open>videos\<close> has no pending filter, order, limit or offset, and an engine
  that stores the texts \<open>1\<close> and \<open>x\<close> unchanged in a \<open>TEXT\<close> column. Inserting
  \<open>{id: 1, title: x}\<close> answers with that record; selecting with \<open>id = 1\<close> then returns
  exactly one record, which has the inserted id and title, the column default \<open>processed\<close>
  as its status and null in every other column of the table; deleting with the same predicate
  and selecting again returns no record.
\<close>

theorem structured_store_round_trip:
  assumes aff: "affinity eng ''TEXT'' (Text ''1'') = Text ''1''"
      "affinity eng ''TEXT'' (Text ''x'') = Text ''x''"
    and fresh: "Some (Text ''1'') \<notin> set (map (row_id ''videos'') (table_rows st ''videos''))"
    and pending: "where_clauses (builder_of ''videos'' st) = []"
      "where_params (builder_of ''videos'' st) = []"
      "order_by_clause (builder_of ''videos'' st) = None"
      "limit_clause (builder_of ''videos'' st) = None"
      "offset_clause (builder_of ''videos'' st) = None"
  shows
    "let (r1, st1) = sb_insert eng True ''videos'' [(''id'', Text ''1''), (''title'', Text ''x'')] st;
         (r2, st2) = sb_execute eng True ''videos''
                       (sb_eq ''videos'' ''id'' (Text ''1'') (sb_select ''videos'' [''*''] st1));
         (r3, st3) = sb_delete eng True ''videos'' (sb_eq ''videos'' ''id'' (Text ''1'') st2);
         (r4, st4) = sb_execute eng True ''videos''
                       (sb_eq ''videos'' ''id'' (Text ''1'') (sb_select ''videos'' [''*''] st3))
     in r1 = [[(''id'', Text ''1''), (''title'', Text ''x'')]] \<and>
        r2 = [[(''id'', Text ''1''), (''filename'', Null), (''file_path'', Null),
               (''title'', Text ''x''), (''description'', Null), (''tags'', Null),
               (''duration'', Null), (''size_bytes'', Null), (''format'', Null),
               (''width'', Null), (''height'', Null), (''thumbnail_path'', Null),
               (''created_at'', Null), (''updated_at'', Null), (''user_id'', Null),
               (''metadata'', Null), (''status'', Text ''processed'')]] \<and>
        r3 = [] \<and> r4 = []"
proof -
  let ?new = "[Text ''1'', Null, Null, Text ''x'', Null, Null, Null, Null, Null, Null, Null,
               Null, Null, Null, Null, Null, Text ''processed'']"
  let ?rows = "table_rows st ''videos''"
  let ?cols = "[''id'', ''filename'', ''file_path'', ''title'', ''description'', ''tags'',
                   ''duration'', ''size_bytes'', ''format'', ''width'', ''height'',
                   ''thumbnail_path'', ''created_at'', ''updated_at'', ''user_id'', ''metadata'',
                   ''status'']"
  define st1 where "st1 = st\<lparr>builders := (builders st)(''videos'' \<mapsto> builder_of ''videos'' st),
               table_rows := (table_rows st)(''videos'' := ?rows @ [?new])\<rparr>"
  define st2 where "st2 = with_builder ''videos'' (\<lambda>b. reset_query) st1"
  define st3 where "st3 = (with_builder ''videos''
                   (\<lambda>b. reset_query\<lparr>where_clauses := [EqClause ''id''],
                                     where_params := [Text ''1'']\<rparr>) st2)
                \<lparr>table_rows := (table_rows st2)(''videos'' :=
                   filter (\<lambda>r. row_id ''videos'' r \<noteq> Some (Text ''1''))
                     (table_rows st2 ''videos''))\<rparr>"
  have new_id: "row_id ''videos'' ?new = Some (Text ''1'')"
    by (simp add: row_id_def table_schema_def cell_def)
  have b1: "builder_of ''videos'' st1 = builder_of ''videos'' st"
    by (simp add: st1_def builder_of_def)
  have b2: "builder_of ''videos'' st2 = reset_query" by (simp add: st2_def)
  have b3: "builder_of ''videos'' st3
              = reset_query\<lparr>where_clauses := [EqClause ''id''], where_params := [Text ''1'']\<rparr>"
    by (simp add: st3_def builder_of_def with_builder_def)
  have rows1: "table_rows st1 ''videos'' = ?rows @ [?new]" by (simp add: st1_def)
  have rows2: "table_rows st2 ''videos'' = ?rows @ [?new]" by (simp add: st2_def rows1)
  have rows3: "table_rows st3 ''videos'' = ?rows"
    using no_such_id [OF fresh] new_id by (simp add: st3_def rows2)
  have s1: "sb_insert eng True ''videos'' [(''id'', Text ''1''), (''title'', Text ''x'')] st
              = ([[(''id'', Text ''1''), (''title'', Text ''x'')]], st1)"
    unfolding st1_def by (rule insert_video [OF aff fresh])
  have s2: "sb_execute eng True ''videos''
              (sb_eq ''videos'' ''id'' (Text ''1'') (sb_select ''videos'' [''*''] st1))
            = (map (row_dict eng ?cols) [?new], st2)"
    unfolding st2_def
    by (rule select_by_id [OF aff(1), where cs = "[]" and ps = "[]"])
      (use no_such_id [OF fresh] new_id pending in \<open>simp_all add: rows1 b1\<close>)
  have rd: "row_dict eng ?cols ?new
            = [(''id'', Text ''1''), (''filename'', Null), (''file_path'', Null),
               (''title'', Text ''x''), (''description'', Null), (''tags'', Null),
               (''duration'', Null), (''size_bytes'', Null), (''format'', Null),
               (''width'', Null), (''height'', Null), (''thumbnail_path'', Null),
               (''created_at'', Null), (''updated_at'', Null), (''user_id'', Null),
               (''metadata'', Null), (''status'', Text ''processed'')]"
    by (simp add: row_dict_def decode_def truthy_def)
  have s3: "sb_delete eng True ''videos'' (sb_eq ''videos'' ''id'' (Text ''1'') st2) = ([], st3)"
    unfolding st3_def by (rule delete_by_id [OF aff(1) b2])
  have s4: "sb_execute eng True ''videos''
              (sb_eq ''videos'' ''id'' (Text ''1'') (sb_select ''videos'' [''*''] st3))
            = (map (row_dict eng ?cols) [], with_builder ''videos'' (\<lambda>b. reset_query) st3)"
    by (rule select_by_id [OF aff(1), where cs = "[EqClause ''id'']" and ps = "[Text ''1'']"])
      (use no_such_id [OF fresh] in \<open>simp_all add: rows3 b3 reset_query_def\<close>)
  show ?thesis
    by (simp only: s1 Let_def prod.case s2 s3 s4 list.map rd)
qed

theorem structured_store_round_trip_witness:
  "affinity \<lparr>affinity = (\<lambda>ty v. v), sql_le = (\<lambda>a b. True), json_loads = (\<lambda>s. None)\<rparr>
      ''TEXT'' (Text ''1'') = Text ''1'' \<and>
   affinity \<lparr>affinity = (\<lambda>ty v. v), sql_le = (\<lambda>a b. True), json_loads = (\<lambda>s. None)\<rparr>
      ''TEXT'' (Text ''x'') = Text ''x'' \<and>
   Some (Text ''1'') \<notin> set (map (row_id ''videos'') (table_rows new_supabase_fallback ''videos'')) \<and>
   where_clauses (builder_of ''videos'' new_supabase_fallback) = [] \<and>
   where_params (builder_of ''videos'' new_supabase_fallback) = [] \<and>
   order_by_clause (builder_of ''videos'' new_supabase_fallback) = None \<and>
   limit_clause (builder_of ''videos'' new_supabase_fallback) = None \<and>
   offset_clause (builder_of ''videos'' new_supabase_fallback) = None \<and>
   (let (r1, st1) = sb_insert \<lparr>affinity = (\<lambda>ty v. v), sql_le = (\<lambda>a b. True), json_loads = (\<lambda>s. None)\<rparr>
                      True ''videos'' [(''id'', Text ''1''), (''title'', Text ''x'')] new_supabase_fallback;
        (r2, st2) = sb_execute \<lparr>affinity = (\<lambda>ty v. v), sql_le = (\<lambda>a b. True), json_loads = (\<lambda>s. None)\<rparr>
                      True ''videos''
                      (sb_eq ''videos'' ''id'' (Text ''1'') (sb_select ''videos'' [''*''] st1));
        (r3, st3) = sb_delete \<lparr>affinity = (\<lambda>ty v. v), sql_le = (\<lambda>a b. True), json_loads = (\<lambda>s. None)\<rparr>
                      True ''videos'' (sb_eq ''videos'' ''id'' (Text ''1'') st2);
        (r4, st4) = sb_execute \<lparr>affinity = (\<lambda>ty v. v), sql_le = (\<lambda>a b. True), json_loads = (\<lambda>s. None)\<rparr>
                      True ''videos''
                      (sb_eq ''videos'' ''id'' (Text ''1'') (sb_select ''videos'' [''*''] st3))
    in r1 = [[(''id'', Text ''1''), (''title'', Text ''x'')]] \<and>
       r2 = [[(''id'', Text ''1''), (''filename'', Null), (''file_path'', Null),
              (''title'', Text ''x''), (''description'', Null), (''tags'', Null),
              (''duration'', Null), (''size_bytes'', Null), (''format'', Null),
              (''width'', Null), (''height'', Null), (''thumbnail_path'', Null),
              (''created_at'', Null), (''updated_at'', Null), (''user_id'', Null),
              (''metadata'', Null), (''status'', Text ''processed'')]] \<and>
       r3 = [] \<and> r4 = [])"
  using structured_store_round_trip
    [of "\<lparr>affinity = (\<lambda>ty v. v), sql_le = (\<lambda>a b. True), json_loads = (\<lambda>s. None)\<rparr>"
        new_supabase_fallback]
  by (simp add: new_supabase_fallback_def builder_of_def reset_query_def)

text \<open>
  The condition on the builder is needed: a limit of 0 or an offset left pending on it (the
  query is reset by a successful \<open>execute\<close> only) makes the select after the insert return
  no record.
\<close>

lemma pending_limit_or_offset_hides_row:
  "fst (sb_execute \<lparr>affinity = (\<lambda>ty v. v), sql_le = (\<lambda>a b. True), json_loads = (\<lambda>s. None)\<rparr>
          True ''videos''
          (sb_eq ''videos'' ''id'' (Text ''1'') (sb_select ''videos'' [''*'']
            (snd (sb_insert \<lparr>affinity = (\<lambda>ty v. v), sql_le = (\<lambda>a b. True), json_loads = (\<lambda>s. None)\<rparr>
                    True ''videos'' [(''id'', Text ''1''), (''title'', Text ''x'')]
                    (sb_limit ''videos'' 0 new_supabase_fallback)))))) = [] \<and>
   fst (sb_execute \<lparr>affinity = (\<lambda>ty v. v), sql_le = (\<lambda>a b. True), json_loads = (\<lambda>s. None)\<rparr>
          True ''videos''
          (sb_eq ''videos'' ''id'' (Text ''1'') (sb_select ''videos'' [''*'']
            (snd (sb_insert \<lparr>affinity = (\<lambda>ty v. v), sql_le = (\<lambda>a b. True), json_loads = (\<lambda>s. None)\<rparr>
                    True ''videos'' [(''id'', Text ''1''), (''title'', Text ''x'')]
                    (sb_offset ''videos'' 1 new_supabase_fallback)))))) = []"
  by (simp add: sb_insert_def sb_execute_def sb_eq_def sb_select_def sb_limit_def sb_offset_def
      with_builder_def builder_of_def new_supabase_fallback_def reset_query_def run_insert_def
      run_select_def table_schema_def is_column_def cell_def sql_eq_def order_rows_def
      limit_rows_def project_def row_dict_def decode_def truthy_def Let_def)

text \<open>
  C8 as stated fails on a new store: the one record selected is not equal to the inserted
  one, it has a \<open>status\<close> (and fourteen null fields) that the inserted record lacks.
\<close>

theorem select_returns_all_columns_counterexample:
  "fst (sb_execute \<lparr>affinity = (\<lambda>ty v. v), sql_le = (\<lambda>a b. True), json_loads = (\<lambda>s. None)\<rparr>
          True ''videos''
          (sb_eq ''videos'' ''id'' (Text ''1'') (sb_select ''videos'' [''*'']
            (snd (sb_insert \<lparr>affinity = (\<lambda>ty v. v), sql_le = (\<lambda>a b. True), json_loads = (\<lambda>s. None)\<rparr>
                    True ''videos'' [(''id'', Text ''1''), (''title'', Text ''x'')]
                    new_supabase_fallback)))))
     = [[(''id'', Text ''1''), (''filename'', Null), (''file_path'', Null),
         (''title'', Text ''x''), (''description'', Null), (''tags'', Null),
         (''duration'', Null), (''size_bytes'', Null), (''format'', Null),
         (''width'', Null), (''height'', Null), (''thumbnail_path'', Null),
         (''created_at'', Null), (''updated_at'', Null), (''user_id'', Null),
         (''metadata'', Null), (''status'', Text ''processed'')]] \<and>
   map_of [(''id'', Text ''1''), (''filename'', Null), (''file_path'', Null),
         (''title'', Text ''x''), (''description'', Null), (''tags'', Null),
         (''duration'', Null), (''size_bytes'', Null), (''format'', Null),
         (''width'', Null), (''height'', Null), (''thumbnail_path'', Null),
         (''created_at'', Null), (''updated_at'', Null), (''user_id'', Null),
         (''metadata'', Null), (''status'', Text ''processed'')] ''status''
     = Some (Text ''processed'') \<and>
   map_of [(''id'', Text ''1''), (''title'', Text ''x'')] ''status'' = None"
  by (simp add: sb_insert_def sb_execute_def sb_eq_def sb_select_def with_builder_def
      builder_of_def new_supabase_fallback_def reset_query_def run_insert_def run_select_def
      table_schema_def is_column_def cell_def sql_eq_def order_rows_def limit_rows_def
      project_def row_dict_def decode_def truthy_def Let_def)

end
